theory Spec2Isabelle
  imports Complex_Main
begin

section \<open>Python values used by the governance engine\<close>

subsection \<open>Floats (IEEE 754 binary64)\<close>

text \<open>
  A Python \<open>float\<close> is a binary64 number. A finite one is the rational it denotes; the
  two zeros are one value (they compare equal and no operation of \<open>main.py\<close> tells
  them apart). Every arithmetic operation computes the exact rational result and rounds
  it to the nearest binary64 number, ties to even (\<open>rnd\<close>).
\<close>

datatype pyfloat = Fin rat | PInf | NInf | NaN

function bit_length :: "nat \<Rightarrow> nat" where
  "bit_length n = (if n = 0 then 0 else Suc (bit_length (n div 2)))"
  by pat_completeness auto
termination
  by (relation "measure id") auto

declare bit_length.simps [simp del]

definition pow2 :: "int \<Rightarrow> rat" where
  "pow2 e = (if 0 \<le> e then 2 ^ nat e else 1 / 2 ^ nat (- e))"

text \<open>\<open>ilog2 x\<close> is the binary exponent of a positive rational: \<open>2^e \<le> x < 2^(e+1)\<close>.\<close>

definition ilog2 :: "rat \<Rightarrow> int" where
  "ilog2 x = (if 1 \<le> x then int (bit_length (nat \<lfloor>x\<rfloor>)) - 1
              else - int (bit_length (nat (\<lceil>1 / x\<rceil> - 1))))"

definition round_half_even :: "rat \<Rightarrow> int" where
  "round_half_even x = (let f = \<lfloor>x\<rfloor>; r = x - of_int f
     in if r < 1 / 2 then f else if 1 / 2 < r then f + 1 else if even f then f else f + 1)"

text \<open>
  Rounding to binary64: 53 significant bits, the exponent clipped below at \<open>-1022\<close>
  (subnormal numbers), overflow to an infinity.
\<close>

definition rnd :: "rat \<Rightarrow> pyfloat" where
  "rnd x = (if x = 0 then Fin 0 else
     (let e = ilog2 \<bar>x\<bar> in
      if 1024 \<le> e then (if 0 < x then PInf else NInf) else
      (let q = pow2 (max e (- 1022) - 52);
           n = round_half_even (x / q)
       in if e = 1023 \<and> \<bar>n\<bar> = 2 ^ 53 then (if 0 < x then PInf else NInf)
          else Fin (of_int n * q))))"

text \<open>A float literal of the source, such as \<open>0.3\<close>, is the binary64 number nearest to it.\<close>

definition float_lit :: "rat \<Rightarrow> pyfloat" where
  "float_lit q = rnd q"

fun fneg :: "pyfloat \<Rightarrow> pyfloat" where
  "fneg (Fin a) = Fin (- a)"
| "fneg PInf = NInf"
| "fneg NInf = PInf"
| "fneg NaN = NaN"

fun fadd :: "pyfloat \<Rightarrow> pyfloat \<Rightarrow> pyfloat" where
  "fadd (Fin a) (Fin b) = rnd (a + b)"
| "fadd NaN _ = NaN"
| "fadd _ NaN = NaN"
| "fadd PInf NInf = NaN"
| "fadd NInf PInf = NaN"
| "fadd PInf _ = PInf"
| "fadd NInf _ = NInf"
| "fadd _ PInf = PInf"
| "fadd _ NInf = NInf"

definition fsub :: "pyfloat \<Rightarrow> pyfloat \<Rightarrow> pyfloat" where
  "fsub a b = fadd a (fneg b)"

fun fmul :: "pyfloat \<Rightarrow> pyfloat \<Rightarrow> pyfloat" where
  "fmul (Fin a) (Fin b) = rnd (a * b)"
| "fmul NaN _ = NaN"
| "fmul _ NaN = NaN"
| "fmul (Fin a) PInf = (if a = 0 then NaN else if 0 < a then PInf else NInf)"
| "fmul (Fin a) NInf = (if a = 0 then NaN else if 0 < a then NInf else PInf)"
| "fmul PInf (Fin b) = (if b = 0 then NaN else if 0 < b then PInf else NInf)"
| "fmul NInf (Fin b) = (if b = 0 then NaN else if 0 < b then NInf else PInf)"
| "fmul PInf PInf = PInf"
| "fmul PInf NInf = NInf"
| "fmul NInf PInf = NInf"
| "fmul NInf NInf = PInf"

text \<open>The comparison \<open>a < b\<close> of two floats; it is false whenever one of them is NaN.\<close>

fun flt :: "pyfloat \<Rightarrow> pyfloat \<Rightarrow> bool" where
  "flt NaN _ = False"
| "flt _ NaN = False"
| "flt (Fin a) (Fin b) = (a < b)"
| "flt PInf _ = False"
| "flt _ NInf = False"
| "flt NInf _ = True"
| "flt _ PInf = True"

text \<open>\<open>min(a, b)\<close> of Python returns \<open>a\<close> unless \<open>b < a\<close>.\<close>

definition py_min :: "pyfloat \<Rightarrow> pyfloat \<Rightarrow> pyfloat" where
  "py_min a b = (if flt b a then b else a)"

text \<open>
  \<open>a / b\<close> on two Python ints is the correctly rounded quotient. The two divisions of
  \<open>main.py\<close> have a non-zero divisor (\<open>total > 0\<close> is tested, \<open>30\<close> is a
  constant) and a quotient far inside the binary64 range, so neither can raise.
\<close>

definition int_truediv :: "int \<Rightarrow> int \<Rightarrow> pyfloat" where
  "int_truediv a b = rnd (of_int a / of_int b)"

text \<open>
  \<open>round(x, 2)\<close> on a float rounds the exact value of \<open>x\<close> to two decimal places,
  ties to even, and returns the float nearest to that decimal.
\<close>

fun py_round2 :: "pyfloat \<Rightarrow> pyfloat" where
  "py_round2 (Fin x) = rnd (of_int (round_half_even (x * 100)) / 100)"
| "py_round2 PInf = PInf"
| "py_round2 NInf = NInf"
| "py_round2 NaN = NaN"

text \<open>A number that is either an \<open>int\<close> or a \<open>float\<close>.\<close>

datatype pynum = PyInt int | PyFloat pyfloat

subsection \<open>Decimal text of an int\<close>

definition digit_char :: "nat \<Rightarrow> char" where
  "digit_char d = ''0123456789'' ! d"

function str_nat :: "nat \<Rightarrow> string" where
  "str_nat n = (if n < 10 then [digit_char n] else str_nat (n div 10) @ [digit_char (n mod 10)])"
  by pat_completeness auto
termination
  by (relation "measure id") auto

declare str_nat.simps [simp del]

definition str_int :: "int \<Rightarrow> string" where
  "str_int i = (if i < 0 then CHR ''-'' # str_nat (nat (- i)) else str_nat (nat i))"

subsection \<open>Dates and times\<close>

text \<open>
  A naive \<open>datetime\<close> is its number of microseconds since the first instant Python can
  represent; \<open>(a - b).days\<close> is the floor of the difference in days.
\<close>

type_synonym datetime = int

definition timedelta_days :: "int \<Rightarrow> int" where
  "timedelta_days n = n * 86400000000"

definition days_between :: "datetime \<Rightarrow> datetime \<Rightarrow> int" where
  "days_between a b = (a - b) div 86400000000"

section \<open>Data model of \<open>main.py\<close>\<close>

datatype ComplianceStatus = COMPLIANT | NON_COMPLIANT | IN_PROGRESS | NOT_ASSESSED

fun status_value :: "ComplianceStatus \<Rightarrow> string" where
  "status_value COMPLIANT = ''compliant''"
| "status_value NON_COMPLIANT = ''non_compliant''"
| "status_value IN_PROGRESS = ''in_progress''"
| "status_value NOT_ASSESSED = ''not_assessed''"

datatype RiskLevel = LOW | MEDIUM | HIGH | CRITICAL

fun risk_value :: "RiskLevel \<Rightarrow> string" where
  "risk_value LOW = ''low''"
| "risk_value MEDIUM = ''medium''"
| "risk_value HIGH = ''high''"
| "risk_value CRITICAL = ''critical''"

record ControlRequirement =
  control_id :: string
  title :: string
  description :: string
  standard :: string
  status :: ComplianceStatus
  risk_level :: RiskLevel
  implementation_date :: string
  next_review_date :: string
  responsible_team :: string
  evidence_documents :: "string list"
  control_notes :: string
  last_assessment_date :: "datetime option"
  compliance_drift_factor :: pyfloat
  incident_count :: int
  automation_level :: pyfloat
  dependency_controls :: "string list"

record ComplianceIncident =
  incident_id :: string
  inc_title :: string
  inc_description :: string
  affected_controls :: "string list"
  severity :: RiskLevel
  occurrence_time :: datetime
  resolution_time :: "datetime option"
  impact_duration_hours :: int

text \<open>
  An alert is the dict built by \<open>_create_alert\<close>, one field per key. The key
  \<open>"timestamp"\<close> holds the ISO text of a clock reading; the record keeps the reading.
\<close>

record Alert =
  alert_id :: string
  alert_title :: string
  message :: string
  alert_severity :: string
  timestamp :: datetime
  acknowledged :: bool

text \<open>
  The two shapes of dict appended to \<open>audit_log\<close>: \<open>status_update\<close> (timestamp,
  control id, old status, new status, notes) and \<open>solution_implemented\<close> (timestamp,
  control id, solution type, description). As in an alert, the timestamp is kept as the
  clock reading whose ISO text the source stores.
\<close>

datatype audit_entry =
  Status_update datetime string string string string
| Solution_implemented datetime string string string

subsection \<open>The environment\<close>

text \<open>
  The engine reads a clock and a random source. The calls it makes to them are numbered
  in the order they happen; \<open>now_at env k\<close> is what \<open>datetime.datetime.now()\<close> returns
  when it is call number \<open>k\<close>, \<open>time_at env k\<close> what \<open>int(time.time())\<close> gives,
  \<open>random_at env k\<close> what \<open>random.random()\<close> returns and \<open>choice_at env k\<close> the
  number drawn by \<open>random.choice\<close>, which selects the element at that number modulo
  the length of the sequence. \<open>strptime env\<close> is
  \<open>datetime.strptime(_, "%Y-%m-%d")\<close>, with \<open>None\<close> for a \<open>ValueError\<close>.
\<close>

record env =
  now_at :: "nat \<Rightarrow> datetime"
  time_at :: "nat \<Rightarrow> int"
  random_at :: "nat \<Rightarrow> pyfloat"
  choice_at :: "nat \<Rightarrow> nat"
  strptime :: "string \<Rightarrow> datetime option"

text \<open>
  The fields of a \<open>GovernanceManager\<close>, and \<open>env_calls\<close>, the number of calls made to
  the environment so far. Log lines and printed text are not part of the state.
\<close>

record GovernanceManager =
  iso27001_controls :: "ControlRequirement list"
  pci_dss_controls :: "ControlRequirement list"
  audit_log :: "audit_entry list"
  incidents :: "ComplianceIncident list"
  alerts :: "Alert list"
  monitoring_active :: bool
  env_calls :: nat

definition datetime_now :: "env \<Rightarrow> GovernanceManager \<Rightarrow> datetime \<times> GovernanceManager" where
  "datetime_now e s = (now_at e (env_calls s), s\<lparr>env_calls := Suc (env_calls s)\<rparr>)"

definition time_time :: "env \<Rightarrow> GovernanceManager \<Rightarrow> int \<times> GovernanceManager" where
  "time_time e s = (time_at e (env_calls s), s\<lparr>env_calls := Suc (env_calls s)\<rparr>)"

definition random_random :: "env \<Rightarrow> GovernanceManager \<Rightarrow> pyfloat \<times> GovernanceManager" where
  "random_random e s = (random_at e (env_calls s), s\<lparr>env_calls := Suc (env_calls s)\<rparr>)"

definition random_choice :: "env \<Rightarrow> 'a list \<Rightarrow> GovernanceManager \<Rightarrow> 'a \<times> GovernanceManager" where
  "random_choice e xs s =
     (xs ! (choice_at e (env_calls s) mod length xs), s\<lparr>env_calls := Suc (env_calls s)\<rparr>)"

section \<open>Operations of the GovernanceManager\<close>

subsection \<open>The control registry\<close>

definition all_controls :: "GovernanceManager \<Rightarrow> ControlRequirement list" where
  "all_controls s = iso27001_controls s @ pci_dss_controls s"

text \<open>
  \<open>for control in all_controls: body\<close>. The body may change the control it visits and
  the manager (its alerts); it never reads the manager's control lists, so the changed
  controls are written back once, by \<open>store_controls\<close>, when the loop is over.
\<close>

fun for_controls ::
  "(ControlRequirement \<Rightarrow> GovernanceManager \<Rightarrow> ControlRequirement \<times> GovernanceManager) \<Rightarrow>
   ControlRequirement list \<Rightarrow> GovernanceManager \<Rightarrow> ControlRequirement list \<times> GovernanceManager" where
  "for_controls body [] s = ([], s)"
| "for_controls body (c # cs) s =
     (case body c s of (c', s1) \<Rightarrow>
       (case for_controls body cs s1 of (cs', s2) \<Rightarrow> (c' # cs', s2)))"

definition store_controls :: "ControlRequirement list \<Rightarrow> GovernanceManager \<Rightarrow> GovernanceManager" where
  "store_controls cs s =
     s\<lparr>iso27001_controls := take (length (iso27001_controls s)) cs,
       pci_dss_controls := drop (length (iso27001_controls s)) cs\<rparr>"

definition for_all_controls ::
  "(ControlRequirement \<Rightarrow> GovernanceManager \<Rightarrow> ControlRequirement \<times> GovernanceManager) \<Rightarrow>
   GovernanceManager \<Rightarrow> GovernanceManager" where
  "for_all_controls body s =
     (case for_controls body (all_controls s) s of (cs', s') \<Rightarrow> store_controls cs' s')"

subsection \<open>Alerts\<close>

definition create_alert :: "env \<Rightarrow> string \<Rightarrow> string \<Rightarrow> RiskLevel \<Rightarrow> GovernanceManager \<Rightarrow> GovernanceManager" where
  "create_alert e ttl msg sev s =
     (case time_time e s of (t, s1) \<Rightarrow>
      (case datetime_now e s1 of (now, s2) \<Rightarrow>
        s2\<lparr>alerts := alerts s2 @
          [\<lparr>alert_id = ''ALT-'' @ str_int t @ ''-'' @ str_int (int (length (alerts s))),
            alert_title = ttl,
            message = msg,
            alert_severity = risk_value sev,
            timestamp = now,
            acknowledged = False\<rparr>]\<rparr>))"

definition get_active_alerts :: "GovernanceManager \<Rightarrow> Alert list" where
  "get_active_alerts s = filter (\<lambda>a. \<not> acknowledged a) (alerts s)"

fun acknowledge_loop :: "string \<Rightarrow> Alert list \<Rightarrow> Alert list option" where
  "acknowledge_loop aid [] = None"
| "acknowledge_loop aid (a # as) =
     (if alert_id a = aid then Some (a\<lparr>acknowledged := True\<rparr> # as)
      else map_option ((#) a) (acknowledge_loop aid as))"

definition acknowledge_alert :: "string \<Rightarrow> GovernanceManager \<Rightarrow> bool \<times> GovernanceManager" where
  "acknowledge_alert aid s =
     (case acknowledge_loop aid (alerts s) of
        None \<Rightarrow> (False, s)
      | Some as' \<Rightarrow> (True, s\<lparr>alerts := as'\<rparr>))"

subsection \<open>Status update and summary\<close>

fun update_status_loop ::
  "string \<Rightarrow> ComplianceStatus \<Rightarrow> string \<Rightarrow> ControlRequirement list \<Rightarrow>
   (ComplianceStatus \<times> ControlRequirement list) option" where
  "update_status_loop cid st nt [] = None"
| "update_status_loop cid st nt (c # cs) =
     (if control_id c = cid then Some (status c, c\<lparr>status := st, control_notes := nt\<rparr> # cs)
      else map_option (\<lambda>(old, cs'). (old, c # cs')) (update_status_loop cid st nt cs))"

definition update_control_status ::
  "env \<Rightarrow> string \<Rightarrow> ComplianceStatus \<Rightarrow> string \<Rightarrow> GovernanceManager \<Rightarrow> bool \<times> GovernanceManager" where
  "update_control_status e cid st nt s =
     (case update_status_loop cid st nt (all_controls s) of
        None \<Rightarrow> (False, s)
      | Some (old_status, cs') \<Rightarrow>
          (case datetime_now e (store_controls cs' s) of (now, s1) \<Rightarrow>
            (True, s1\<lparr>audit_log := audit_log s1 @
               [Status_update now cid (status_value old_status) (status_value st) nt]\<rparr>)))"

record StandardSummary =
  summary_standard :: string
  total_controls :: int
  compliant :: int
  non_compliant :: int
  in_progress :: int
  not_assessed :: int
  compliance_percentage :: pynum

text \<open>\<open>round(x, 2)\<close>: an int is returned as it is, a float is rounded to two places.\<close>

fun py_round_2 :: "pynum \<Rightarrow> pynum" where
  "py_round_2 (PyInt i) = PyInt i"
| "py_round_2 (PyFloat x) = PyFloat (py_round2 x)"

definition count_status :: "ComplianceStatus \<Rightarrow> ControlRequirement list \<Rightarrow> int" where
  "count_status st controls = int (length (filter (\<lambda>c. status c = st) controls))"

definition get_standard_summary :: "ControlRequirement list \<Rightarrow> string \<Rightarrow> StandardSummary" where
  "get_standard_summary controls std =
     (let total = int (length controls);
          n_compliant = count_status COMPLIANT controls;
          n_non_compliant = count_status NON_COMPLIANT controls;
          n_in_progress = count_status IN_PROGRESS controls;
          n_not_assessed = count_status NOT_ASSESSED controls;
          percentage = (if 0 < total
                        then PyFloat (fmul (int_truediv n_compliant total) (Fin 100))
                        else PyInt 0)
      in \<lparr>summary_standard = std,
          total_controls = total,
          compliant = n_compliant,
          non_compliant = n_non_compliant,
          in_progress = n_in_progress,
          not_assessed = n_not_assessed,
          compliance_percentage = py_round_2 percentage\<rparr>)"

subsection \<open>Drift, incidents and reviews\<close>

definition drift_probability :: "ControlRequirement \<Rightarrow> int \<Rightarrow> pyfloat" where
  "drift_probability c days_since_assessment =
     fmul (fmul (compliance_drift_factor c) (int_truediv days_since_assessment 30))
          (fsub (Fin 1) (automation_level c))"

definition drift_body ::
  "env \<Rightarrow> ControlRequirement \<Rightarrow> GovernanceManager \<Rightarrow> ControlRequirement \<times> GovernanceManager" where
  "drift_body e c s =
     (if status c = COMPLIANT then
        (case last_assessment_date c of
           None \<Rightarrow> (c, s)
         | Some assessed \<Rightarrow>
            (case datetime_now e s of (now, s1) \<Rightarrow>
             (case random_random e s1 of (r, s2) \<Rightarrow>
               (if flt r (fmul (drift_probability c (days_between now assessed)) (float_lit (3 / 10)))
                then (c\<lparr>status := IN_PROGRESS\<rparr>,
                      create_alert e
                        (''Compliance drift detected for '' @ control_id c)
                        (''Control '' @ control_id c @
                           '' has drifted from compliant status due to time decay'')
                        (risk_level c) s2)
                else (c, s2)))))
      else (c, s))"

definition check_compliance_drift :: "env \<Rightarrow> GovernanceManager \<Rightarrow> GovernanceManager" where
  "check_compliance_drift e s = for_all_controls (drift_body e) s"

definition impact_body ::
  "env \<Rightarrow> ComplianceIncident \<Rightarrow> ControlRequirement \<Rightarrow> GovernanceManager \<Rightarrow>
   ControlRequirement \<times> GovernanceManager" where
  "impact_body e incident c s =
     (if control_id c \<in> set (affected_controls incident) then
        (let c1 = c\<lparr>incident_count := incident_count c + 1\<rparr> in
         if status c1 = COMPLIANT then
           (c1\<lparr>status := NON_COMPLIANT\<rparr>,
            create_alert e
              (''Incident impact: '' @ control_id c1)
              (''Control affected by incident: '' @ inc_title incident)
              (severity incident) s)
         else (c1, s))
      else (c, s))"

definition apply_incident_impact ::
  "env \<Rightarrow> ComplianceIncident \<Rightarrow> GovernanceManager \<Rightarrow> GovernanceManager" where
  "apply_incident_impact e incident s = for_all_controls (impact_body e incident) s"

type_synonym incident_type = "string \<times> string \<times> string list \<times> RiskLevel"

definition simulated_incident_types :: "incident_type list" where
  "simulated_incident_types =
     [(''SEC-001'', ''Failed Password Audit'', [''PCI.2.1''], HIGH),
      (''SEC-002'', ''Firewall Misconfiguration'', [''PCI.1.1''], CRITICAL),
      (''SEC-003'', ''Asset Discovery Gap'', [''A.8.1.1''], MEDIUM),
      (''SEC-004'', ''Policy Violation'', [''A.5.1.1''], HIGH)]"

definition forced_incident_types :: "incident_type list" where
  "forced_incident_types =
     [(''SEC-001'', ''Failed Password Audit'', [''PCI.2.1''], HIGH),
      (''SEC-002'', ''Firewall Misconfiguration'', [''PCI.1.1''], CRITICAL),
      (''SEC-003'', ''Asset Discovery Gap'', [''A.8.1.1''], MEDIUM),
      (''SEC-004'', ''Policy Violation'', [''A.5.1.1''], HIGH),
      (''SEC-005'', ''Unauthorized Access Detected'', [''A.6.1.1''], CRITICAL),
      (''SEC-006'', ''Encryption Key Exposure'', [''PCI.3.4''], CRITICAL)]"

text \<open>
  The incident both \<open>_simulate_incidents\<close> and \<open>force_incident\<close> construct from the
  chosen template: the clock is read for the id, then for the occurrence time.
\<close>

definition new_incident ::
  "env \<Rightarrow> string \<Rightarrow> incident_type \<Rightarrow> GovernanceManager \<Rightarrow> ComplianceIncident \<times> GovernanceManager" where
  "new_incident e prefix tpl s =
     (case tpl of (code, ttl, affected, sev) \<Rightarrow>
      (case time_time e s of (t, s1) \<Rightarrow>
       (case datetime_now e s1 of (now, s2) \<Rightarrow>
         (\<lparr>incident_id = code @ ''-'' @ str_int t,
           inc_title = ttl,
           inc_description = prefix @ ttl,
           affected_controls = affected,
           severity = sev,
           occurrence_time = now,
           resolution_time = None,
           impact_duration_hours = 24\<rparr>, s2))))"

definition simulate_incidents :: "env \<Rightarrow> GovernanceManager \<Rightarrow> GovernanceManager" where
  "simulate_incidents e s =
     (case random_random e s of (r, s1) \<Rightarrow>
       (if flt r (float_lit (15 / 100)) then
          (case random_choice e simulated_incident_types s1 of (tpl, s2) \<Rightarrow>
           (case new_incident e ''Automated incident simulation: '' tpl s2 of (incident, s3) \<Rightarrow>
             apply_incident_impact e incident (s3\<lparr>incidents := incidents s3 @ [incident]\<rparr>)))
        else s1))"

definition force_incident :: "env \<Rightarrow> GovernanceManager \<Rightarrow> ComplianceIncident \<times> GovernanceManager" where
  "force_incident e s =
     (case random_choice e forced_incident_types s of (tpl, s1) \<Rightarrow>
      (case new_incident e ''Manually triggered incident: '' tpl s1 of (incident, s2) \<Rightarrow>
        (incident, apply_incident_impact e incident (s2\<lparr>incidents := incidents s2 @ [incident]\<rparr>))))"

definition review_body ::
  "env \<Rightarrow> ControlRequirement \<Rightarrow> GovernanceManager \<Rightarrow> ControlRequirement \<times> GovernanceManager" where
  "review_body e c s =
     (if next_review_date c \<noteq> [] then
        (case strptime e (next_review_date c) of
           None \<Rightarrow> (c, s)
         | Some review_date \<Rightarrow>
            (case datetime_now e s of (now, s1) \<Rightarrow>
              (if review_date < now then
                 (c, create_alert e
                       (''Overdue review: '' @ control_id c)
                       (''Control '' @ control_id c @ '' is past its review date'')
                       MEDIUM s1)
               else (c, s1))))
      else (c, s))"

definition check_overdue_reviews :: "env \<Rightarrow> GovernanceManager \<Rightarrow> GovernanceManager" where
  "check_overdue_reviews e s = for_all_controls (review_body e) s"

text \<open>One round of the monitoring thread's loop body.\<close>

definition monitor_round :: "env \<Rightarrow> GovernanceManager \<Rightarrow> GovernanceManager" where
  "monitor_round e s = check_overdue_reviews e (simulate_incidents e (check_compliance_drift e s))"

subsection \<open>Incident resolution\<close>

definition restore_body ::
  "env \<Rightarrow> ComplianceIncident \<Rightarrow> ControlRequirement \<Rightarrow> GovernanceManager \<Rightarrow>
   ControlRequirement \<times> GovernanceManager" where
  "restore_body e incident c s =
     (if control_id c \<in> set (affected_controls incident) then
        (if status c = NON_COMPLIANT then
           (case datetime_now e s of (now, s1) \<Rightarrow>
             (c\<lparr>status := COMPLIANT, last_assessment_date := Some now\<rparr>,
              create_alert e
                (''Control restored: '' @ control_id c)
                (''Control '' @ control_id c @
                   '' restored to compliance after incident resolution'')
                LOW s1))
         else (c, s))
      else (c, s))"

text \<open>
  \<open>for incident in self.incidents\<close>: the first incident that has the id and no
  resolution time is resolved and the loop returns; \<open>None\<close> is falling out of the loop.
\<close>

fun resolve_loop ::
  "env \<Rightarrow> string \<Rightarrow> ComplianceIncident list \<Rightarrow> GovernanceManager \<Rightarrow>
   (ComplianceIncident list \<times> GovernanceManager) option" where
  "resolve_loop e iid [] s = None"
| "resolve_loop e iid (i # is) s =
     (if incident_id i = iid \<and> resolution_time i = None then
        (case datetime_now e s of (now, s1) \<Rightarrow>
          (let i' = i\<lparr>resolution_time := Some now\<rparr>
           in Some (i' # is, for_all_controls (restore_body e i') s1)))
      else map_option (\<lambda>(is', s'). (i # is', s')) (resolve_loop e iid is s))"

definition resolve_incident :: "env \<Rightarrow> string \<Rightarrow> GovernanceManager \<Rightarrow> bool \<times> GovernanceManager" where
  "resolve_incident e iid s =
     (case resolve_loop e iid (incidents s) s of
        None \<Rightarrow> (False, s)
      | Some (is', s') \<Rightarrow> (True, s'\<lparr>incidents := is'\<rparr>))"

subsection \<open>Solution implementation\<close>

definition solutions :: "(string \<times> string) list" where
  "solutions =
     [(''automation'', ''Automated monitoring and enforcement implemented''),
      (''training'', ''Staff training and awareness program completed''),
      (''policy_update'', ''Updated policies and procedures implemented''),
      (''technology'', ''New security technology deployed''),
      (''process'', ''Improved security processes implemented'')]"

definition solution_description :: "string \<Rightarrow> string" where
  "solution_description solution_type =
     (case map_of solutions solution_type of
        None \<Rightarrow> ''Generic solution implemented''
      | Some d \<Rightarrow> d)"

text \<open>The parameter adjustment that depends on the solution type.\<close>

definition improve_control :: "string \<Rightarrow> ControlRequirement \<Rightarrow> ControlRequirement" where
  "improve_control solution_type c =
     (if solution_type = ''automation'' then
        c\<lparr>automation_level := py_min (Fin 1) (fadd (automation_level c) (float_lit (3 / 10))),
          compliance_drift_factor := fmul (compliance_drift_factor c) (float_lit (7 / 10))\<rparr>
      else if solution_type = ''training'' then
        c\<lparr>compliance_drift_factor := fmul (compliance_drift_factor c) (float_lit (8 / 10))\<rparr>
      else if solution_type = ''technology'' then
        c\<lparr>automation_level := py_min (Fin 1) (fadd (automation_level c) (float_lit (4 / 10))),
          compliance_drift_factor := fmul (compliance_drift_factor c) (float_lit (6 / 10))\<rparr>
      else c)"

fun implement_loop ::
  "env \<Rightarrow> string \<Rightarrow> string \<Rightarrow> ControlRequirement list \<Rightarrow> GovernanceManager \<Rightarrow>
   (ControlRequirement list \<times> GovernanceManager) option" where
  "implement_loop e cid solution_type [] s = None"
| "implement_loop e cid solution_type (c # cs) s =
     (if control_id c = cid \<and> (status c = NON_COMPLIANT \<or> status c = IN_PROGRESS) then
        (case datetime_now e s of (now, s1) \<Rightarrow>
          (let c1 = improve_control solution_type
                      (c\<lparr>status := COMPLIANT, last_assessment_date := Some now\<rparr>);
               solution_desc = solution_description solution_type;
               c2 = c1\<lparr>control_notes := ''Solution: '' @ solution_desc\<rparr>
           in (case datetime_now e s1 of (stamp, s2) \<Rightarrow>
                Some (c2 # cs,
                  create_alert e
                    (''Solution implemented: '' @ control_id c2)
                    (''Control '' @ control_id c2 @ '' restored via '' @ solution_type @
                       '': '' @ solution_desc)
                    LOW
                    (s2\<lparr>audit_log := audit_log s2 @
                       [Solution_implemented stamp cid solution_type solution_desc]\<rparr>)))))
      else map_option (\<lambda>(cs', s'). (c # cs', s')) (implement_loop e cid solution_type cs s))"

definition implement_solution ::
  "env \<Rightarrow> string \<Rightarrow> string \<Rightarrow> GovernanceManager \<Rightarrow> bool \<times> GovernanceManager" where
  "implement_solution e cid solution_type s =
     (case implement_loop e cid solution_type (all_controls s) s of
        None \<Rightarrow> (False, s)
      | Some (cs', s') \<Rightarrow> (True, store_controls cs' s'))"

subsection \<open>Construction\<close>

text \<open>
  The seed catalog. Each control reads the clock once, for its last assessment date;
  \<open>k\<close> is the number of the first of these calls.
\<close>

definition load_iso27001_controls :: "env \<Rightarrow> nat \<Rightarrow> ControlRequirement list" where
  "load_iso27001_controls e k =
     [\<lparr>control_id = ''A.5.1.1'',
       title = ''Information Security Policy'',
       description = ''Information security policy shall be defined and approved by management'',
       standard = ''ISO27001'',
       status = COMPLIANT,
       risk_level = HIGH,
       implementation_date = ''2024-01-15'',
       next_review_date = ''2025-01-15'',
       responsible_team = ''Security Team'',
       evidence_documents = [''policy_doc_v2.1.pdf''],
       control_notes = [],
       last_assessment_date = Some (now_at e k - timedelta_days 30),
       compliance_drift_factor = float_lit (1 / 10),
       incident_count = 0,
       automation_level = float_lit (3 / 10),
       dependency_controls = []\<rparr>,
      \<lparr>control_id = ''A.6.1.1'',
       title = ''Information Security Roles and Responsibilities'',
       description = ''Information security roles and responsibilities shall be defined and allocated'',
       standard = ''ISO27001'',
       status = IN_PROGRESS,
       risk_level = HIGH,
       implementation_date = ''2024-02-01'',
       next_review_date = ''2025-02-01'',
       responsible_team = ''HR & Security'',
       evidence_documents = [''roles_matrix_draft.xlsx''],
       control_notes = [],
       last_assessment_date = Some (now_at e (k + 1) - timedelta_days 15),
       compliance_drift_factor = float_lit (15 / 100),
       incident_count = 0,
       automation_level = float_lit (2 / 10),
       dependency_controls = []\<rparr>,
      \<lparr>control_id = ''A.8.1.1'',
       title = ''Asset Management Policy'',
       description = ''Assets associated with information and information processing facilities shall be identified'',
       standard = ''ISO27001'',
       status = COMPLIANT,
       risk_level = MEDIUM,
       implementation_date = ''2024-01-10'',
       next_review_date = ''2024-07-10'',
       responsible_team = ''IT Operations'',
       evidence_documents = [''asset_inventory.csv'', ''asset_policy_v1.2.pdf''],
       control_notes = [],
       last_assessment_date = Some (now_at e (k + 2) - timedelta_days 5),
       compliance_drift_factor = float_lit (2 / 10),
       incident_count = 0,
       automation_level = float_lit (8 / 10),
       dependency_controls = []\<rparr>]"

definition load_pci_dss_controls :: "env \<Rightarrow> nat \<Rightarrow> ControlRequirement list" where
  "load_pci_dss_controls e k =
     [\<lparr>control_id = ''PCI.1.1'',
       title = ''Firewall Configuration Standards'',
       description = ''Establish and implement firewall and router configuration standards'',
       standard = ''PCI_DSS'',
       status = COMPLIANT,
       risk_level = CRITICAL,
       implementation_date = ''2024-01-05'',
       next_review_date = ''2024-04-05'',
       responsible_team = ''Network Security'',
       evidence_documents = [''firewall_config_v3.2.txt'', ''penetration_test_report.pdf''],
       control_notes = [],
       last_assessment_date = Some (now_at e k - timedelta_days 20),
       compliance_drift_factor = float_lit (3 / 10),
       incident_count = 0,
       automation_level = float_lit (7 / 10),
       dependency_controls = []\<rparr>,
      \<lparr>control_id = ''PCI.2.1'',
       title = ''Change Default Passwords'',
       description = ''Change vendor-supplied defaults for system passwords and security parameters'',
       standard = ''PCI_DSS'',
       status = NON_COMPLIANT,
       risk_level = HIGH,
       implementation_date = ''2024-02-15'',
       next_review_date = ''2024-05-15'',
       responsible_team = ''System Administration'',
       evidence_documents = [],
       control_notes = [],
       last_assessment_date = Some (now_at e (k + 1) - timedelta_days 3),
       compliance_drift_factor = float_lit (5 / 100),
       incident_count = 2,
       automation_level = float_lit (9 / 10),
       dependency_controls = []\<rparr>,
      \<lparr>control_id = ''PCI.3.4'',
       title = ''Cryptographic Key Management'',
       description = ''Protect cryptographic keys against disclosure and misuse'',
       standard = ''PCI_DSS'',
       status = IN_PROGRESS,
       risk_level = CRITICAL,
       implementation_date = ''2024-03-01'',
       next_review_date = ''2024-06-01'',
       responsible_team = ''Cryptography Team'',
       evidence_documents = [''key_mgmt_plan.pdf''],
       control_notes = [],
       last_assessment_date = Some (now_at e (k + 2) - timedelta_days 10),
       compliance_drift_factor = float_lit (25 / 100),
       incident_count = 0,
       automation_level = float_lit (4 / 10),
       dependency_controls = []\<rparr>]"

text \<open>The manager as \<open>__init__\<close> leaves it, before the monitoring thread has run.\<close>

definition new_manager :: "env \<Rightarrow> GovernanceManager" where
  "new_manager e =
     \<lparr>iso27001_controls = load_iso27001_controls e 0,
      pci_dss_controls = load_pci_dss_controls e 3,
      audit_log = [],
      incidents = [],
      alerts = [],
      monitoring_active = True,
      env_calls = 6\<rparr>"

subsection \<open>The operations as one step function\<close>

text \<open>
  Every way the state is changed: the three periodic checks, the impact of an incident,
  and the calls the dashboard makes.
\<close>

datatype operation =
  Check_compliance_drift
| Simulate_incidents
| Apply_incident_impact ComplianceIncident
| Check_overdue_reviews
| Update_control_status string ComplianceStatus string
| Force_incident
| Resolve_incident string
| Implement_solution string string
| Acknowledge_alert string

fun perform :: "env \<Rightarrow> operation \<Rightarrow> GovernanceManager \<Rightarrow> GovernanceManager" where
  "perform e Check_compliance_drift s = check_compliance_drift e s"
| "perform e Simulate_incidents s = simulate_incidents e s"
| "perform e (Apply_incident_impact incident) s = apply_incident_impact e incident s"
| "perform e Check_overdue_reviews s = check_overdue_reviews e s"
| "perform e (Update_control_status cid st nt) s = snd (update_control_status e cid st nt s)"
| "perform e Force_incident s = snd (force_incident e s)"
| "perform e (Resolve_incident iid) s = snd (resolve_incident e iid s)"
| "perform e (Implement_solution cid solution_type) s = snd (implement_solution e cid solution_type s)"
| "perform e (Acknowledge_alert aid) s = snd (acknowledge_alert aid s)"

subsection \<open>What a loop body may change in the manager\<close>

text \<open>
  \<open>grows s t\<close>: from \<open>s\<close> to \<open>t\<close> the environment was read and alerts were
  appended, and nothing else of the manager changed.
\<close>

definition grows :: "GovernanceManager \<Rightarrow> GovernanceManager \<Rightarrow> bool" where
  "grows s t = (iso27001_controls t = iso27001_controls s \<and>
     pci_dss_controls t = pci_dss_controls s \<and>
     audit_log t = audit_log s \<and>
     incidents t = incidents s \<and>
     monitoring_active t = monitoring_active s \<and>
     env_calls s \<le> env_calls t \<and>
     (\<exists>new. alerts t = alerts s @ new))"

text \<open>\<open>same_control_counted c c'\<close>: \<open>c'\<close> is the control \<open>c\<close> with an incident count that is not smaller.\<close>

definition same_control_counted :: "ControlRequirement \<Rightarrow> ControlRequirement \<Rightarrow> bool" where
  "same_control_counted c c' = (control_id c' = control_id c \<and> incident_count c \<le> incident_count c')"

section \<open>Example environment and states\<close>

text \<open>
  An environment in which every reading of \<open>time.time()\<close> falls in the same second and
  \<open>random.choice\<close> always draws the first element.
\<close>

definition demo_env :: env where
  "demo_env =
     \<lparr>now_at = (\<lambda>k. 63800000000000000 + int k),
      time_at = (\<lambda>k. 1700000000),
      random_at = (\<lambda>k. Fin 0),
      choice_at = (\<lambda>k. 0),
      strptime = (\<lambda>d. None)\<rparr>"

definition compliant_iso_controls :: "ControlRequirement list" where
  "compliant_iso_controls =
     filter (\<lambda>c. status c = COMPLIANT) (load_iso27001_controls demo_env 0)"

definition one_alert_state :: GovernanceManager where
  "one_alert_state =
     create_alert demo_env ''Overdue review: A.8.1.1''
       ''Control A.8.1.1 is past its review date'' MEDIUM (new_manager demo_env)"

definition acknowledged_state :: GovernanceManager where
  "acknowledged_state = snd (acknowledge_alert ''ALT-1700000000-0'' one_alert_state)"

text \<open>
  Two calls of \<open>force_incident\<close> on a fresh manager in that environment, and the state
  after the id the two incidents carry has been resolved once.
\<close>

definition twice_forced :: GovernanceManager where
  "twice_forced =
     snd (force_incident demo_env (snd (force_incident demo_env (new_manager demo_env))))"

definition once_resolved :: GovernanceManager where
  "once_resolved = snd (resolve_incident demo_env ''SEC-001-1700000000'' twice_forced)"

text \<open>An incident on the firewall control \<open>PCI.1.1\<close>, which the seed catalog has compliant.\<close>

definition firewall_incident :: ComplianceIncident where
  "firewall_incident =
     \<lparr>incident_id = ''SEC-002-1700000000'',
      inc_title = ''Firewall Misconfiguration'',
      inc_description = ''Manually triggered incident: Firewall Misconfiguration'',
      affected_controls = [''PCI.1.1''],
      severity = CRITICAL,
      occurrence_time = 63800000000000008,
      resolution_time = None,
      impact_duration_hours = 24\<rparr>"

text \<open>A fresh manager whose control \<open>A.6.1.1\<close> (in progress) has automation level 0.5.\<close>

definition half_automated_state :: GovernanceManager where
  "half_automated_state =
     (new_manager demo_env)
       \<lparr>iso27001_controls :=
          (load_iso27001_controls demo_env 0)
            [1 := (load_iso27001_controls demo_env 0 ! 1)\<lparr>automation_level := Fin (1 / 2)\<rparr>]\<rparr>"

section \<open>Auxiliary facts\<close>

subsection \<open>Float arithmetic at the values the engine uses\<close>

lemma rnd_1: "rnd 1 = Fin 1"
  by code_simp

lemma rnd_100: "rnd 100 = Fin 100"
  by code_simp

lemma round_half_even_of_int: "round_half_even (of_int n) = n"
  by (simp add: round_half_even_def)

lemma py_round2_100: "py_round2 (Fin 100) = Fin 100"
proof -
  have "round_half_even (100 * 100) = 10000"
    using round_half_even_of_int [of 10000] by simp
  then show ?thesis by (simp add: rnd_100)
qed

lemma int_truediv_self: "0 < n \<Longrightarrow> int_truediv n n = Fin 1"
  by (simp add: int_truediv_def rnd_1)

lemma float_lit_three_tenths: "float_lit (3 / 10) = Fin (5404319552844595 / 2 ^ 54)"
  by code_simp

lemma float_lit_eight_tenths: "float_lit (8 / 10) = Fin (7205759403792794 / 2 ^ 53)"
  by code_simp

lemma float_lit_seven_tenths: "float_lit (7 / 10) = Fin (3152519739159347 / 2 ^ 52)"
  by code_simp

lemma rnd_one_third: "rnd (1 / 3) = Fin (6004799503160661 / 2 ^ 54)"
  by code_simp

lemma py_round2_tie_to_even:
  "py_round2 (Fin (1 / 8)) = float_lit (12 / 100)"
  "py_round2 (Fin (3 / 8)) = float_lit (38 / 100)"
  by code_simp+

lemma automation_half_plus_three_tenths:
  "py_min (Fin 1) (fadd (Fin (1 / 2)) (float_lit (3 / 10))) = float_lit (8 / 10)"
  by code_simp

subsection \<open>Decimal text\<close>

lemma str_int_1700000000: "str_int 1700000000 = ''1700000000''"
  by (simp add: str_int_def str_nat.simps digit_char_def)

lemma str_int_0: "str_int 0 = ''0''"
  by (simp add: str_int_def str_nat.simps digit_char_def)

lemma digit_char_inj: "a < 10 \<Longrightarrow> b < 10 \<Longrightarrow> digit_char a = digit_char b \<Longrightarrow> a = b"
proof -
  assume a: "a < 10" and b: "b < 10" and eq: "digit_char a = digit_char b"
  have "distinct ''0123456789''" by simp
  moreover have "a < length ''0123456789''" "b < length ''0123456789''" using a b by simp_all
  ultimately show "a = b" using eq unfolding digit_char_def
    by (simp only: nth_eq_iff_index_eq)
qed

lemma digit_char_not_minus: "d < 10 \<Longrightarrow> digit_char d \<noteq> CHR ''-''"
proof -
  assume "d < 10"
  then have "digit_char d \<in> set ''0123456789''"
    unfolding digit_char_def by (intro nth_mem) simp
  then show ?thesis by auto
qed

lemma str_nat_nonempty: "str_nat n \<noteq> []"
  by (subst str_nat.simps) simp

lemma str_nat_inj: "str_nat n = str_nat m \<Longrightarrow> n = m"
proof (induction n arbitrary: m rule: str_nat.induct)
  case (1 n)
  show ?case
  proof (cases "n < 10")
    case True
    show ?thesis
    proof (cases "m < 10")
      case m: True
      from "1.prems" True m have "digit_char n = digit_char m"
        by (simp add: str_nat.simps [of n] str_nat.simps [of m])
      with True m show ?thesis by (rule digit_char_inj)
    next
      case m: False
      from "1.prems" True m have "[digit_char n] = str_nat (m div 10) @ [digit_char (m mod 10)]"
        by (simp add: str_nat.simps [of n] str_nat.simps [of m])
      then have "str_nat (m div 10) = []" by simp
      then show ?thesis by (simp add: str_nat_nonempty)
    qed
  next
    case False
    show ?thesis
    proof (cases "m < 10")
      case m: True
      from "1.prems" False m have "str_nat (n div 10) @ [digit_char (n mod 10)] = [digit_char m]"
        by (simp add: str_nat.simps [of n] str_nat.simps [of m])
      then have "str_nat (n div 10) = []" by simp
      then show ?thesis by (simp add: str_nat_nonempty)
    next
      case m: False
      from "1.prems" False m have
        "str_nat (n div 10) @ [digit_char (n mod 10)] = str_nat (m div 10) @ [digit_char (m mod 10)]"
        by (simp add: str_nat.simps [of n] str_nat.simps [of m])
      then have a: "str_nat (n div 10) = str_nat (m div 10)"
        and b: "digit_char (n mod 10) = digit_char (m mod 10)"
        by simp_all
      from "1.IH" [OF False a] have "n div 10 = m div 10" .
      moreover from b have "n mod 10 = m mod 10"
        by (intro digit_char_inj) simp_all
      ultimately show ?thesis by (metis div_mult_mod_eq)
    qed
  qed
qed

lemma hd_str_nat_not_minus: "hd (str_nat n) \<noteq> CHR ''-''"
proof (induction n rule: str_nat.induct)
  case (1 n)
  show ?case
  proof (cases "n < 10")
    case True
    then show ?thesis by (simp add: str_nat.simps [of n] digit_char_not_minus)
  next
    case False
    with "1.IH" show ?thesis
      by (simp add: str_nat.simps [of n] str_nat_nonempty)
  qed
qed

lemma str_int_inj: "str_int a = str_int b \<Longrightarrow> a = b"
proof -
  assume eq: "str_int a = str_int b"
  have neg: "str_nat n \<noteq> CHR ''-'' # xs" for n xs
    using hd_str_nat_not_minus [of n] by (cases "str_nat n") auto
  show "a = b"
  proof (cases "a < 0")
    case True
    show ?thesis
    proof (cases "b < 0")
      case b: True
      with True eq have "str_nat (nat (- a)) = str_nat (nat (- b))" by (simp add: str_int_def)
      then have "nat (- a) = nat (- b)" by (rule str_nat_inj)
      with True b show ?thesis by simp
    next
      case b: False
      with True eq neg [of "nat b" "str_nat (nat (- a))"] show ?thesis
        by (simp add: str_int_def)
    qed
  next
    case False
    show ?thesis
    proof (cases "b < 0")
      case b: True
      with False eq neg [of "nat a" "str_nat (nat (- b))"] show ?thesis
        by (simp add: str_int_def)
    next
      case b: False
      with False eq have "str_nat (nat a) = str_nat (nat b)" by (simp add: str_int_def)
      then have "nat a = nat b" by (rule str_nat_inj)
      with False b show ?thesis by simp
    qed
  qed
qed

subsection \<open>Loops over the controls\<close>

lemma grows_refl: "grows s s"
  by (simp add: grows_def)

lemma grows_trans: "grows s t \<Longrightarrow> grows t u \<Longrightarrow> grows s u"
  by (auto simp: grows_def)

lemma grows_create_alert: "grows s (create_alert e ttl msg sev s)"
  by (simp add: grows_def create_alert_def time_time_def datetime_now_def)

lemma grows_drift_body: "grows s (snd (drift_body e c s))"
  by (auto simp: drift_body_def datetime_now_def random_random_def
      split: option.splits prod.splits
      intro!: grows_trans [OF _ grows_create_alert]) (simp_all add: grows_def)

lemma grows_impact_body: "grows s (snd (impact_body e i c s))"
  by (simp add: impact_body_def Let_def grows_create_alert grows_refl)

lemma grows_review_body: "grows s (snd (review_body e c s))"
  by (auto simp: review_body_def datetime_now_def
      split: option.splits prod.splits
      intro!: grows_trans [OF _ grows_create_alert]) (simp_all add: grows_def)

lemma grows_restore_body: "grows s (snd (restore_body e i c s))"
  by (auto simp: restore_body_def datetime_now_def
      split: option.splits prod.splits
      intro!: grows_trans [OF _ grows_create_alert]) (simp_all add: grows_def)

lemma for_controls_Cons:
  "for_controls f (c # cs) s =
     (fst (f c s) # fst (for_controls f cs (snd (f c s))),
      snd (for_controls f cs (snd (f c s))))"
  by (simp split: prod.splits)

declare for_controls.simps(2) [simp del]
declare for_controls_Cons [simp]

lemma length_for_controls: "length (fst (for_controls f cs s)) = length cs"
  by (induction cs arbitrary: s) auto

lemma grows_for_controls:
  assumes "\<And>c t. grows t (snd (f c t))"
  shows "grows s (snd (for_controls f cs s))"
proof (induction cs arbitrary: s)
  case Nil
  show ?case by (simp add: grows_refl)
next
  case (Cons c cs)
  have "grows s (snd (f c s))" by (rule assms)
  moreover have "grows (snd (f c s)) (snd (for_controls f cs (snd (f c s))))"
    by (rule Cons.IH)
  ultimately show ?case
    by (auto dest: grows_trans)
qed

text \<open>
  The control at position \<open>i\<close> is visited once, in a manager \<open>t\<close> that the earlier
  visits have only extended, and later visits only extend what its visit leaves.
\<close>

lemma for_controls_nth:
  assumes "\<And>c t. grows t (snd (f c t))"
  shows "i < length cs \<Longrightarrow>
     \<exists>t. grows s t \<and> fst (for_controls f cs s) ! i = fst (f (cs ! i) t) \<and>
         grows (snd (f (cs ! i) t)) (snd (for_controls f cs s))"
proof (induction cs arbitrary: s i)
  case Nil
  then show ?case by simp
next
  case (Cons c cs)
  show ?case
  proof (cases i)
    case 0
    have "grows (snd (f c s)) (snd (for_controls f cs (snd (f c s))))"
      by (rule grows_for_controls) (rule assms)
    with 0 show ?thesis
      by (intro exI [of _ s]) (auto simp: grows_refl)
  next
    case (Suc j)
    with Cons.prems have "j < length cs" by simp
    from Cons.IH [OF this, of "snd (f c s)"] obtain t where
      t: "grows (snd (f c s)) t"
         "fst (for_controls f cs (snd (f c s))) ! j = fst (f (cs ! j) t)"
         "grows (snd (f (cs ! j) t)) (snd (for_controls f cs (snd (f c s))))"
      by blast
    have "grows s t" using assms [of s c] t(1) by (rule grows_trans)
    with t Suc show ?thesis
      by (intro exI [of _ t]) auto
  qed
qed

lemma all_controls_store: "all_controls (store_controls cs s) = cs"
  by (simp add: all_controls_def store_controls_def)

lemma all_controls_for_all:
  "all_controls (for_all_controls f s) = fst (for_controls f (all_controls s) s)"
  by (simp add: for_all_controls_def all_controls_store split: prod.splits)

subsection \<open>Counting and acknowledging\<close>

lemma count_status_card:
  "count_status st cs = int (card {i. i < length cs \<and> status (cs ! i) = st})"
  by (simp add: count_status_def length_filter_conv_card)

lemma count_status_all: "\<forall>c\<in>set cs. status c = st \<Longrightarrow> count_status st cs = int (length cs)"
  by (simp add: count_status_def)

lemma acknowledge_loop_find:
  "find (\<lambda>a. alert_id a = aid) as = Some a \<Longrightarrow> acknowledged a \<Longrightarrow>
   acknowledge_loop aid as = Some as"
  by (induction as) (auto split: if_splits)

lemma acknowledge_loop_mem:
  "a \<in> set as \<Longrightarrow> \<exists>as'. acknowledge_loop (alert_id a) as = Some as'"
  by (induction as) auto

lemma acknowledge_loop_twice:
  "acknowledge_loop aid as = Some as' \<Longrightarrow> acknowledge_loop aid as' = Some as'"
  by (induction as arbitrary: as') (auto split: if_splits)

lemma for_controls_alerts:
  assumes "\<And>c t. \<exists>new. alerts (snd (f c t)) = alerts t @ new \<and> map proj new = h (c, fst (f c t))"
  shows "\<exists>new. alerts (snd (for_controls f cs s)) = alerts s @ new \<and>
           map proj new = concat (map h (zip cs (fst (for_controls f cs s))))"
proof (induction cs arbitrary: s)
  case Nil
  show ?case by simp
next
  case (Cons c cs)
  obtain new1 where 1: "alerts (snd (f c s)) = alerts s @ new1" "map proj new1 = h (c, fst (f c s))"
    using assms [of c s] by blast
  obtain new2 where 2: "alerts (snd (for_controls f cs (snd (f c s)))) = alerts (snd (f c s)) @ new2"
    "map proj new2 = concat (map h (zip cs (fst (for_controls f cs (snd (f c s))))))"
    using Cons.IH [of "snd (f c s)"] by blast
  show ?case
    by (rule exI [of _ "new1 @ new2"]) (simp add: 1 2)
qed

lemma concat_map_if:
  "concat (map (\<lambda>x. if R x then [g x] else []) xs) = map g (filter R xs)"
  by (induction xs) auto

lemma alerts_for_all_controls:
  "alerts (for_all_controls f s) = alerts (snd (for_controls f (all_controls s) s))"
  by (simp add: for_all_controls_def store_controls_def split: prod.splits)

lemma env_calls_for_all_controls:
  "env_calls (for_all_controls f s) = env_calls (snd (for_controls f (all_controls s) s))"
  by (simp add: for_all_controls_def store_controls_def split: prod.splits)

lemma alerts_create_alert:
  "\<exists>a. alerts (create_alert e ttl msg sev s) = alerts s @ [a] \<and> alert_title a = ttl \<and>
       message a = msg \<and> alert_severity a = risk_value sev \<and> \<not> acknowledged a"
  by (simp add: create_alert_def time_time_def datetime_now_def)

lemma env_calls_create_alert: "env_calls (create_alert e ttl msg sev s) = env_calls s + 2"
  by (simp add: create_alert_def time_time_def datetime_now_def)

lemma for_all_controls_eq:
  "for_all_controls f s =
     store_controls (fst (for_controls f (all_controls s) s))
       (snd (for_controls f (all_controls s) s))"
  by (simp add: for_all_controls_def split: prod.splits)

lemma incidents_for_all_controls:
  assumes "\<And>c t. grows t (snd (f c t))"
  shows "incidents (for_all_controls f s) = incidents s"
  using grows_for_controls [of f s "all_controls s", OF assms]
  by (simp add: for_all_controls_eq store_controls_def grows_def)

subsection \<open>The loop bodies\<close>

lemma fst_impact_body:
  "fst (impact_body e incident c s) =
     (if control_id c \<in> set (affected_controls incident) then
        (if status c = COMPLIANT
         then c\<lparr>incident_count := incident_count c + 1, status := NON_COMPLIANT\<rparr>
         else c\<lparr>incident_count := incident_count c + 1\<rparr>)
      else c)"
  by (simp add: impact_body_def Let_def)

lemma fst_for_controls_impact:
  "fst (for_controls (impact_body e incident) cs s) =
     map (\<lambda>c. fst (impact_body e incident c s)) cs"
proof (induction cs arbitrary: s)
  case Nil
  show ?case by simp
next
  case (Cons c cs)
  have "\<And>t. fst (impact_body e incident c t) = fst (impact_body e incident c s)" for c
    by (simp add: fst_impact_body)
  with Cons show ?case by (simp add: fst_impact_body)
qed

lemma alerts_impact_body:
  "\<exists>new. alerts (snd (impact_body e incident c t)) = alerts t @ new \<and>
     map (\<lambda>a. (alert_title a, alert_severity a)) new =
       (\<lambda>(c, c'). if control_id c \<in> set (affected_controls incident) \<and> status c = COMPLIANT
           then [(''Incident impact: '' @ control_id c, risk_value (severity incident))] else [])
       (c, fst (impact_body e incident c t))"
  using alerts_create_alert [of e "''Incident impact: '' @ control_id c"
      "''Control affected by incident: '' @ inc_title incident" "severity incident" t]
  by (auto simp: impact_body_def Let_def)

lemma drifted_neq: "status c = COMPLIANT \<Longrightarrow> c\<lparr>status := IN_PROGRESS\<rparr> \<noteq> c"
proof
  assume "status c = COMPLIANT" and "c\<lparr>status := IN_PROGRESS\<rparr> = c"
  then have "status (c\<lparr>status := IN_PROGRESS\<rparr>) = COMPLIANT" by simp
  then show False by simp
qed

lemma drift_body_untouched:
  "status c \<noteq> COMPLIANT \<or> last_assessment_date c = None \<Longrightarrow> drift_body e c t = (c, t)"
  by (auto simp: drift_body_def)

lemma drift_body_eligible:
  assumes "status c = COMPLIANT" "last_assessment_date c = Some assessed"
  shows "fst (drift_body e c t) =
      (if flt (random_at e (Suc (env_calls t)))
            (fmul (fmul (fmul (compliance_drift_factor c)
                              (int_truediv (days_between (now_at e (env_calls t)) assessed) 30))
                        (fsub (Fin 1) (automation_level c)))
                  (float_lit (3 / 10)))
       then c\<lparr>status := IN_PROGRESS\<rparr> else c)"
    and "env_calls t + 2 \<le> env_calls (snd (drift_body e c t))"
  using assms
  by (simp_all add: drift_body_def datetime_now_def random_random_def drift_probability_def
      env_calls_create_alert)

lemma alerts_drift_body:
  "\<exists>new. alerts (snd (drift_body e c t)) = alerts t @ new \<and>
     map (\<lambda>a. (alert_title a, alert_severity a)) new =
       (\<lambda>(c, c'). if c' \<noteq> c
           then [(''Compliance drift detected for '' @ control_id c, risk_value (risk_level c))]
           else [])
       (c, fst (drift_body e c t))"
proof (cases "status c = COMPLIANT \<and> last_assessment_date c \<noteq> None")
  case False
  then have "drift_body e c t = (c, t)" by (auto simp: drift_body_def)
  then show ?thesis by simp
next
  case True
  then obtain assessed where a: "status c = COMPLIANT" "last_assessment_date c = Some assessed"
    by auto
  let ?t2 = "snd (random_random e (snd (datetime_now e t)))"
  have t2: "alerts ?t2 = alerts t" by (simp add: random_random_def datetime_now_def)
  show ?thesis
  proof (cases "fst (drift_body e c t) = c")
    case True
    with a have "snd (drift_body e c t) = ?t2"
      by (auto simp: drift_body_def drifted_neq split: prod.splits if_splits)
    with True t2 show ?thesis by simp
  next
    case False
    with a have "snd (drift_body e c t) =
        create_alert e (''Compliance drift detected for '' @ control_id c)
          (''Control '' @ control_id c @ '' has drifted from compliant status due to time decay'')
          (risk_level c) ?t2"
      by (auto simp: drift_body_def split: prod.splits if_splits)
    with False t2 show ?thesis
      using alerts_create_alert [of e "''Compliance drift detected for '' @ control_id c"
        "''Control '' @ control_id c @ '' has drifted from compliant status due to time decay''"
        "risk_level c" ?t2]
      by auto
  qed
qed

subsection \<open>Solution implementation\<close>

lemma implement_loop_None:
  "\<forall>c\<in>set cs. control_id c = cid \<longrightarrow> status c \<noteq> NON_COMPLIANT \<and> status c \<noteq> IN_PROGRESS \<Longrightarrow>
   implement_loop e cid st cs s = None"
  by (induction cs) auto

lemma implement_loop_Some:
  "implement_loop e cid st cs s = Some (cs', s') \<Longrightarrow>
   \<exists>i<length cs. control_id (cs ! i) = cid \<and>
      (status (cs ! i) = NON_COMPLIANT \<or> status (cs ! i) = IN_PROGRESS) \<and>
      cs' = cs[i := (improve_control st
                ((cs ! i)\<lparr>status := COMPLIANT,
                           last_assessment_date := Some (now_at e (env_calls s))\<rparr>))
              \<lparr>control_notes := ''Solution: '' @ solution_description st\<rparr>]"
proof (induction cs arbitrary: cs')
  case Nil
  then show ?case by simp
next
  case (Cons c cs)
  show ?case
  proof (cases "control_id c = cid \<and> (status c = NON_COMPLIANT \<or> status c = IN_PROGRESS)")
    case True
    with Cons.prems have "cs' = (improve_control st
                (c\<lparr>status := COMPLIANT, last_assessment_date := Some (now_at e (env_calls s))\<rparr>))
              \<lparr>control_notes := ''Solution: '' @ solution_description st\<rparr> # cs"
      by (auto simp: datetime_now_def Let_def)
    with True show ?thesis by (intro exI [of _ 0]) auto
  next
    case False
    with Cons.prems obtain cs'' where 1: "implement_loop e cid st cs s = Some (cs'', s')"
      and 2: "cs' = c # cs''"
      by auto
    from Cons.IH [OF 1] obtain i where "i < length cs" "control_id (cs ! i) = cid"
      "status (cs ! i) = NON_COMPLIANT \<or> status (cs ! i) = IN_PROGRESS"
      "cs'' = cs[i := (improve_control st
                ((cs ! i)\<lparr>status := COMPLIANT,
                           last_assessment_date := Some (now_at e (env_calls s))\<rparr>))
              \<lparr>control_notes := ''Solution: '' @ solution_description st\<rparr>]"
      by blast
    with 2 show ?thesis by (intro exI [of _ "Suc i"]) auto
  qed
qed

lemma implement_loop_eligible:
  "\<exists>c\<in>set cs. control_id c = cid \<and> (status c = NON_COMPLIANT \<or> status c = IN_PROGRESS) \<Longrightarrow>
   implement_loop e cid st cs s \<noteq> None"
  by (induction cs) (auto simp: datetime_now_def Let_def split: prod.splits)

lemma improve_control_keeps:
  "status (improve_control st c) = status c"
  "last_assessment_date (improve_control st c) = last_assessment_date c"
  "incident_count (improve_control st c) = incident_count c"
  "control_id (improve_control st c) = control_id c"
  by (simp_all add: improve_control_def)

lemma implement_loop_first:
  "i < length cs \<Longrightarrow> control_id (cs ! i) = cid \<Longrightarrow>
   status (cs ! i) = NON_COMPLIANT \<or> status (cs ! i) = IN_PROGRESS \<Longrightarrow>
   \<forall>j<i. control_id (cs ! j) = cid \<longrightarrow>
      status (cs ! j) \<noteq> NON_COMPLIANT \<and> status (cs ! j) \<noteq> IN_PROGRESS \<Longrightarrow>
   \<exists>s'. implement_loop e cid st cs s =
     Some (cs[i := (improve_control st
                ((cs ! i)\<lparr>status := COMPLIANT,
                           last_assessment_date := Some (now_at e (env_calls s))\<rparr>))
              \<lparr>control_notes := ''Solution: '' @ solution_description st\<rparr>], s')"
proof (induction cs arbitrary: i)
  case Nil
  then show ?case by simp
next
  case (Cons c cs)
  show ?case
  proof (cases i)
    case 0
    with Cons.prems show ?thesis by (auto simp: datetime_now_def Let_def)
  next
    case (Suc m)
    with Cons.prems have head: "\<not> (control_id c = cid \<and>
        (status c = NON_COMPLIANT \<or> status c = IN_PROGRESS))"
      by auto
    from Suc Cons.prems have "m < length cs" "control_id (cs ! m) = cid"
      "status (cs ! m) = NON_COMPLIANT \<or> status (cs ! m) = IN_PROGRESS"
      "\<forall>j<m. control_id (cs ! j) = cid \<longrightarrow>
          status (cs ! j) \<noteq> NON_COMPLIANT \<and> status (cs ! j) \<noteq> IN_PROGRESS"
      by auto
    from Cons.IH [OF this] head Suc show ?thesis by auto
  qed
qed

subsection \<open>Incident counts\<close>

lemma counted_refl: "list_all2 same_control_counted cs cs"
  by (simp add: list_all2_conv_all_nth same_control_counted_def)

lemma counted_trans:
  "list_all2 same_control_counted xs ys \<Longrightarrow> list_all2 same_control_counted ys zs \<Longrightarrow>
   list_all2 same_control_counted xs zs"
  by (fastforce simp: list_all2_conv_all_nth same_control_counted_def)

lemma counted_for_controls:
  assumes "\<And>c t. same_control_counted c (fst (f c t))"
  shows "list_all2 same_control_counted cs (fst (for_controls f cs s))"
  by (induction cs arbitrary: s) (simp_all add: assms)

lemma counted_for_all_controls:
  assumes "\<And>c t. same_control_counted c (fst (f c t))"
  shows "list_all2 same_control_counted (all_controls s) (all_controls (for_all_controls f s))"
  by (simp add: all_controls_for_all counted_for_controls assms)

lemma counted_drift_body: "same_control_counted c (fst (drift_body e c t))"
  by (simp add: same_control_counted_def drift_body_def split: option.splits prod.splits)

lemma counted_impact_body: "same_control_counted c (fst (impact_body e i c t))"
  by (simp add: same_control_counted_def impact_body_def Let_def)

lemma counted_review_body: "same_control_counted c (fst (review_body e c t))"
  by (simp add: same_control_counted_def review_body_def split: option.splits prod.splits)

lemma counted_restore_body: "same_control_counted c (fst (restore_body e i c t))"
  by (simp add: same_control_counted_def restore_body_def split: option.splits prod.splits)

lemma counted_apply_incident_impact:
  "list_all2 same_control_counted (all_controls s) (all_controls (apply_incident_impact e i s))"
  unfolding apply_incident_impact_def
  by (rule counted_for_all_controls) (rule counted_impact_body)

lemma counted_new_incident:
  "all_controls t = all_controls s \<Longrightarrow>
   list_all2 same_control_counted (all_controls s)
     (all_controls (apply_incident_impact e i (t\<lparr>incidents := incs\<rparr>)))"
  using counted_apply_incident_impact [of "t\<lparr>incidents := incs\<rparr>" e i]
  by (simp add: all_controls_def)

lemma all_controls_random_random: "all_controls (snd (random_random e s)) = all_controls s"
  by (simp add: random_random_def all_controls_def)

lemma all_controls_random_choice: "all_controls (snd (random_choice e xs s)) = all_controls s"
  by (simp add: random_choice_def all_controls_def)

lemma all_controls_new_incident: "all_controls (snd (new_incident e p tpl s)) = all_controls s"
  by (simp add: new_incident_def time_time_def datetime_now_def all_controls_def
      split: prod.splits)

lemma counted_simulate_incidents:
  "list_all2 same_control_counted (all_controls s) (all_controls (simulate_incidents e s))"
proof -
  obtain r s1 where 1: "random_random e s = (r, s1)" by (cases "random_random e s")
  obtain tpl s2 where 2: "random_choice e simulated_incident_types s1 = (tpl, s2)"
    by (cases "random_choice e simulated_incident_types s1")
  obtain i s3 where 3: "new_incident e ''Automated incident simulation: '' tpl s2 = (i, s3)"
    by (cases "new_incident e ''Automated incident simulation: '' tpl s2")
  have a1: "all_controls s1 = all_controls s"
    using 1 all_controls_random_random [of e s] by simp
  have "all_controls s2 = all_controls s1"
    using 2 all_controls_random_choice [of e simulated_incident_types s1] by simp
  moreover have "all_controls s3 = all_controls s2"
    using 3 all_controls_new_incident [of e "''Automated incident simulation: ''" tpl s2] by simp
  ultimately have "all_controls s3 = all_controls s" using a1 by simp
  then have "list_all2 same_control_counted (all_controls s)
     (all_controls (apply_incident_impact e i (s3\<lparr>incidents := incidents s3 @ [i]\<rparr>)))"
    by (rule counted_new_incident)
  with a1 show ?thesis by (simp add: simulate_incidents_def 1 2 3 counted_refl)
qed

lemma counted_force_incident:
  "list_all2 same_control_counted (all_controls s) (all_controls (snd (force_incident e s)))"
proof -
  obtain tpl s1 where 1: "random_choice e forced_incident_types s = (tpl, s1)"
    by (cases "random_choice e forced_incident_types s")
  obtain i s2 where 2: "new_incident e ''Manually triggered incident: '' tpl s1 = (i, s2)"
    by (cases "new_incident e ''Manually triggered incident: '' tpl s1")
  have "all_controls s1 = all_controls s"
    using 1 all_controls_random_choice [of e forced_incident_types s] by simp
  moreover have "all_controls s2 = all_controls s1"
    using 2 all_controls_new_incident [of e "''Manually triggered incident: ''" tpl s1] by simp
  ultimately have "all_controls s2 = all_controls s" by simp
  then have "list_all2 same_control_counted (all_controls s)
     (all_controls (apply_incident_impact e i (s2\<lparr>incidents := incidents s2 @ [i]\<rparr>)))"
    by (rule counted_new_incident)
  then show ?thesis by (simp add: force_incident_def 1 2)
qed

lemma counted_update_status_loop:
  "update_status_loop cid st nt cs = Some (old, cs') \<Longrightarrow> list_all2 same_control_counted cs cs'"
proof (induction cs arbitrary: cs')
  case Nil
  then show ?case by simp
next
  case (Cons c cs)
  then show ?case
    by (auto simp: counted_refl same_control_counted_def [of c] split: if_splits)
qed

lemma counted_update_control_status:
  "list_all2 same_control_counted (all_controls s)
     (all_controls (snd (update_control_status e cid st nt s)))"
proof (cases "update_status_loop cid st nt (all_controls s)")
  case None
  then show ?thesis by (simp add: update_control_status_def counted_refl)
next
  case (Some r)
  obtain old cs' where r: "r = (old, cs')" by (cases r)
  have "all_controls (snd (update_control_status e cid st nt s)) = cs'"
    using Some r all_controls_store [of cs' s]
    by (simp add: update_control_status_def datetime_now_def all_controls_def)
  with Some r show ?thesis by (simp add: counted_update_status_loop)
qed

lemma resolve_loop_form:
  "resolve_loop e iid is s = Some (is', s') \<Longrightarrow>
   \<exists>i. s' = for_all_controls (restore_body e i) (snd (datetime_now e s))"
  by (induction "is" arbitrary: is') (auto simp: Let_def split: if_splits prod.splits)

lemma counted_resolve_incident:
  "list_all2 same_control_counted (all_controls s) (all_controls (snd (resolve_incident e iid s)))"
proof (cases "resolve_loop e iid (incidents s) s")
  case None
  then show ?thesis by (simp add: resolve_incident_def counted_refl)
next
  case (Some r)
  obtain is' s' where r: "r = (is', s')" by (cases r)
  with Some obtain i where s': "s' = for_all_controls (restore_body e i) (snd (datetime_now e s))"
    using resolve_loop_form by blast
  have "list_all2 same_control_counted (all_controls (snd (datetime_now e s))) (all_controls s')"
    unfolding s' by (rule counted_for_all_controls) (rule counted_restore_body)
  moreover have "all_controls (snd (datetime_now e s)) = all_controls s"
    by (simp add: datetime_now_def all_controls_def)
  moreover have "all_controls (snd (resolve_incident e iid s)) = all_controls s'"
    using Some r by (simp add: resolve_incident_def all_controls_def)
  ultimately show ?thesis by simp
qed

lemma counted_implement_solution:
  "list_all2 same_control_counted (all_controls s)
     (all_controls (snd (implement_solution e cid st s)))"
proof (cases "implement_loop e cid st (all_controls s) s")
  case None
  then show ?thesis by (simp add: implement_solution_def counted_refl)
next
  case (Some r)
  obtain cs' s' where r: "r = (cs', s')" by (cases r)
  let ?c2 = "\<lambda>i. (improve_control st
                ((all_controls s ! i)\<lparr>status := COMPLIANT,
                           last_assessment_date := Some (now_at e (env_calls s))\<rparr>))
              \<lparr>control_notes := ''Solution: '' @ solution_description st\<rparr>"
  from implement_loop_Some [OF Some [unfolded r]] obtain i where
    cs': "cs' = (all_controls s)[i := ?c2 i]"
    by blast
  have "same_control_counted (all_controls s ! i) (?c2 i)"
    by (simp add: same_control_counted_def improve_control_keeps)
  with counted_refl have "list_all2 same_control_counted
      ((all_controls s)[i := all_controls s ! i]) ((all_controls s)[i := ?c2 i])"
    by (rule list_all2_update_cong)
  then have "list_all2 same_control_counted (all_controls s) cs'"
    by (simp add: cs')
  with Some r show ?thesis by (simp add: implement_solution_def all_controls_store)
qed

lemma counted_acknowledge_alert:
  "list_all2 same_control_counted (all_controls s) (all_controls (snd (acknowledge_alert aid s)))"
  by (simp add: acknowledge_alert_def all_controls_def counted_refl split: option.splits)

lemma counted_perform:
  "list_all2 same_control_counted (all_controls s) (all_controls (perform e op s))"
proof (cases op)
  case Check_compliance_drift
  then show ?thesis
    by (simp add: check_compliance_drift_def counted_for_all_controls counted_drift_body)
next
  case Check_overdue_reviews
  then show ?thesis
    by (simp add: check_overdue_reviews_def counted_for_all_controls counted_review_body)
qed (simp_all add: counted_simulate_incidents counted_apply_incident_impact
    counted_update_control_status counted_force_incident counted_resolve_incident
    counted_implement_solution counted_acknowledge_alert)

lemma counted_perform_all:
  "list_all2 same_control_counted (all_controls s)
     (all_controls (foldl (\<lambda>t op. perform e op t) s ops))"
proof (induction ops arbitrary: s)
  case Nil
  show ?case by (simp add: counted_refl)
next
  case (Cons op ops)
  have "list_all2 same_control_counted (all_controls s) (all_controls (perform e op s))"
    by (rule counted_perform)
  moreover have "list_all2 same_control_counted (all_controls (perform e op s))
     (all_controls (foldl (\<lambda>t op. perform e op t) (perform e op s) ops))"
    by (rule Cons.IH)
  ultimately show ?case by (auto dest: counted_trans)
qed

subsection \<open>The incident ledger\<close>

lemma incidents_apply_incident_impact: "incidents (apply_incident_impact e i s) = incidents s"
  unfolding apply_incident_impact_def
  by (rule incidents_for_all_controls) (rule grows_impact_body)

lemma incidents_force_incident:
  "incidents (snd (force_incident e s)) = incidents s @ [fst (force_incident e s)]"
  by (simp add: force_incident_def incidents_apply_incident_impact random_choice_def
      new_incident_def time_time_def datetime_now_def split: prod.splits)

lemma force_incident_open: "resolution_time (fst (force_incident e s)) = None"
  by (simp add: force_incident_def random_choice_def
      new_incident_def time_time_def datetime_now_def split: prod.splits)

lemma force_incident_id_demo:
  "incident_id (fst (force_incident demo_env s)) = ''SEC-001-1700000000''"
  by (simp add: force_incident_def random_choice_def forced_incident_types_def
      new_incident_def time_time_def datetime_now_def demo_env_def str_int_1700000000
      split: prod.splits)

lemma incidents_twice_forced:
  "incidents twice_forced =
     [fst (force_incident demo_env (new_manager demo_env)),
      fst (force_incident demo_env (snd (force_incident demo_env (new_manager demo_env))))]"
  by (simp add: twice_forced_def incidents_force_incident new_manager_def)

lemma resolve_loop_None:
  "\<forall>i\<in>set is. incident_id i = iid \<longrightarrow> resolution_time i \<noteq> None \<Longrightarrow>
   resolve_loop e iid is s = None"
  by (induction "is") auto

lemma resolve_loop_first_open:
  "j < length is \<Longrightarrow> incident_id (is ! j) = iid \<Longrightarrow> resolution_time (is ! j) = None \<Longrightarrow>
   \<forall>k<j. \<not> (incident_id (is ! k) = iid \<and> resolution_time (is ! k) = None) \<Longrightarrow>
   resolve_loop e iid is s =
     Some (is[j := (is ! j)\<lparr>resolution_time := Some (now_at e (env_calls s))\<rparr>],
           for_all_controls
             (restore_body e ((is ! j)\<lparr>resolution_time := Some (now_at e (env_calls s))\<rparr>))
             (snd (datetime_now e s)))"
proof (induction "is" arbitrary: j)
  case Nil
  then show ?case by simp
next
  case (Cons i "is")
  show ?case
  proof (cases j)
    case 0
    with Cons.prems show ?thesis by (simp add: datetime_now_def Let_def)
  next
    case (Suc m)
    with Cons.prems have head: "\<not> (incident_id i = iid \<and> resolution_time i = None)"
      by auto
    from Suc Cons.prems have "m < length is" "incident_id (is ! m) = iid"
      "resolution_time (is ! m) = None"
      "\<forall>k<m. \<not> (incident_id (is ! k) = iid \<and> resolution_time (is ! k) = None)"
      by auto
    from Cons.IH [OF this] head Suc show ?thesis by auto
  qed
qed

lemma resolve_twice_forced:
  "resolve_incident demo_env ''SEC-001-1700000000'' twice_forced =
    (True, (for_all_controls
             (restore_body demo_env ((incidents twice_forced ! 0)
                \<lparr>resolution_time := Some (now_at demo_env (env_calls twice_forced))\<rparr>))
             (snd (datetime_now demo_env twice_forced)))
        \<lparr>incidents := (incidents twice_forced)
           [0 := (incidents twice_forced ! 0)
                \<lparr>resolution_time := Some (now_at demo_env (env_calls twice_forced))\<rparr>]\<rparr>)"
proof -
  have "resolve_loop demo_env ''SEC-001-1700000000'' (incidents twice_forced) twice_forced =
     Some ((incidents twice_forced)
           [0 := (incidents twice_forced ! 0)
                \<lparr>resolution_time := Some (now_at demo_env (env_calls twice_forced))\<rparr>],
           for_all_controls
             (restore_body demo_env ((incidents twice_forced ! 0)
                \<lparr>resolution_time := Some (now_at demo_env (env_calls twice_forced))\<rparr>))
             (snd (datetime_now demo_env twice_forced)))"
    by (rule resolve_loop_first_open)
      (simp_all add: incidents_twice_forced force_incident_id_demo force_incident_open)
  then show ?thesis by (simp add: resolve_incident_def)
qed

lemma incidents_once_resolved:
  "incidents once_resolved =
     [(fst (force_incident demo_env (new_manager demo_env)))
        \<lparr>resolution_time := Some (now_at demo_env (env_calls twice_forced))\<rparr>,
      fst (force_incident demo_env (snd (force_incident demo_env (new_manager demo_env))))]"
  by (simp add: once_resolved_def resolve_twice_forced incidents_twice_forced)

text \<open>
  Two incidents made by \<open>force_incident\<close> or \<open>_simulate_incidents\<close> share their id
  exactly when they are made from the same template code in the same second.
\<close>

lemma new_incident_id:
  "incident_id (fst (new_incident e p (code, ttl, affected, sev) s)) =
     code @ ''-'' @ str_int (time_at e (env_calls s))"
  by (simp add: new_incident_def time_time_def datetime_now_def)

lemma new_incident_id_eq_iff:
  assumes "length code1 = length code2"
  shows "incident_id (fst (new_incident e p (code1, ttl1, affected1, sev1) s)) =
         incident_id (fst (new_incident e' p' (code2, ttl2, affected2, sev2) s')) \<longleftrightarrow>
         code1 = code2 \<and> time_at e (env_calls s) = time_at e' (env_calls s')"
  using assms by (auto simp: new_incident_id dest: str_int_inj)

lemma incident_type_code_length:
  "\<forall>tpl\<in>set simulated_incident_types. length (fst tpl) = 7"
  "\<forall>tpl\<in>set forced_incident_types. length (fst tpl) = 7"
  by (simp_all add: simulated_incident_types_def forced_incident_types_def)

subsection \<open>Incident resolution\<close>

lemma resolve_incident_all_resolved:
  "\<forall>i\<in>set (incidents s). incident_id i = iid \<longrightarrow> resolution_time i \<noteq> None \<Longrightarrow>
   resolve_incident e iid s = (False, s)"
  by (simp add: resolve_incident_def resolve_loop_None)

lemma resolve_loop_Some:
  "resolve_loop e iid is s = Some r \<Longrightarrow>
   \<exists>j<length is. incident_id (is ! j) = iid \<and> resolution_time (is ! j) = None \<and>
      (\<forall>k<j. \<not> (incident_id (is ! k) = iid \<and> resolution_time (is ! k) = None))"
proof (induction "is" arbitrary: r)
  case Nil
  then show ?case by simp
next
  case (Cons i "is")
  show ?case
  proof (cases "incident_id i = iid \<and> resolution_time i = None")
    case True
    then show ?thesis by (intro exI [of _ 0]) simp
  next
    case False
    with Cons.prems obtain r' where "resolve_loop e iid is s = Some r'"
      by auto
    from Cons.IH [OF this] obtain j where j: "j < length is" "incident_id (is ! j) = iid"
      "resolution_time (is ! j) = None"
      "\<forall>k<j. \<not> (incident_id (is ! k) = iid \<and> resolution_time (is ! k) = None)"
      by blast
    have "\<forall>k<Suc j. \<not> (incident_id ((i # is) ! k) = iid \<and> resolution_time ((i # is) ! k) = None)"
    proof (intro allI impI)
      fix k assume "k < Suc j"
      with False j(4) show "\<not> (incident_id ((i # is) ! k) = iid \<and> resolution_time ((i # is) ! k) = None)"
        by (cases k) auto
    qed
    with j show ?thesis by (intro exI [of _ "Suc j"]) simp
  qed
qed

text \<open>A resolution time, once set, is never changed by \<open>resolve_incident\<close>.\<close>

lemma resolve_incident_keeps_resolved:
  assumes "k < length (incidents s)" "resolution_time (incidents s ! k) \<noteq> None"
  shows "incidents (snd (resolve_incident e iid s)) ! k = incidents s ! k"
proof (cases "resolve_loop e iid (incidents s) s")
  case None
  then show ?thesis by (simp add: resolve_incident_def)
next
  case (Some r)
  from resolve_loop_Some [OF Some] obtain j where j: "j < length (incidents s)"
    "incident_id (incidents s ! j) = iid" "resolution_time (incidents s ! j) = None"
    "\<forall>k<j. \<not> (incident_id (incidents s ! k) = iid \<and> resolution_time (incidents s ! k) = None)"
    by blast
  from resolve_loop_first_open [OF j, of e s]
  have "incidents (snd (resolve_incident e iid s)) =
      (incidents s)[j := (incidents s ! j)\<lparr>resolution_time := Some (now_at e (env_calls s))\<rparr>]"
    by (simp add: resolve_incident_def)
  moreover from assms j(3) have "k \<noteq> j" by auto
  ultimately show ?thesis by simp
qed

lemma restored_neq: "status c = NON_COMPLIANT \<Longrightarrow>
  c\<lparr>status := COMPLIANT, last_assessment_date := d\<rparr> \<noteq> c"
proof
  assume "status c = NON_COMPLIANT" and "c\<lparr>status := COMPLIANT, last_assessment_date := d\<rparr> = c"
  then have "status (c\<lparr>status := COMPLIANT, last_assessment_date := d\<rparr>) = NON_COMPLIANT" by simp
  then show False by simp
qed

lemma restore_body_untouched:
  "\<not> (control_id c \<in> set (affected_controls i) \<and> status c = NON_COMPLIANT) \<Longrightarrow>
   restore_body e i c t = (c, t)"
  by (auto simp: restore_body_def)

lemma restore_body_restored:
  assumes "control_id c \<in> set (affected_controls i)" "status c = NON_COMPLIANT"
  shows "fst (restore_body e i c t) =
      c\<lparr>status := COMPLIANT, last_assessment_date := Some (now_at e (env_calls t))\<rparr>"
    and "env_calls (snd (restore_body e i c t)) = env_calls t + 3"
  using assms
  by (simp_all add: restore_body_def datetime_now_def env_calls_create_alert)

lemma alerts_restore_body:
  "\<exists>new. alerts (snd (restore_body e i c t)) = alerts t @ new \<and>
     map (\<lambda>a. (alert_title a, alert_severity a)) new =
       (\<lambda>(c, c'). if control_id c \<in> set (affected_controls i) \<and> status c = NON_COMPLIANT
           then [(''Control restored: '' @ control_id c, ''low'')] else [])
       (c, fst (restore_body e i c t))"
proof (cases "control_id c \<in> set (affected_controls i) \<and> status c = NON_COMPLIANT")
  case False
  then have "restore_body e i c t = (c, t)" by (rule restore_body_untouched)
  with False show ?thesis by simp
next
  case True
  let ?t1 = "snd (datetime_now e t)"
  have t1: "alerts ?t1 = alerts t" by (simp add: datetime_now_def)
  from True have "snd (restore_body e i c t) =
      create_alert e (''Control restored: '' @ control_id c)
        (''Control '' @ control_id c @ '' restored to compliance after incident resolution'')
        LOW ?t1"
    by (simp add: restore_body_def split: prod.splits)
  with True t1 show ?thesis
    using alerts_create_alert [of e "''Control restored: '' @ control_id c"
        "''Control '' @ control_id c @ '' restored to compliance after incident resolution''"
        LOW ?t1]
    by auto
qed

text \<open>
  What \<open>resolve_incident\<close> does for the first open incident that carries the id: the
  statement of C3 for that incident.
\<close>

lemma resolve_incident_first_open:
  assumes j: "j < length (incidents s)" "incident_id (incidents s ! j) = iid"
    "resolution_time (incidents s ! j) = None"
    "\<forall>k<j. \<not> (incident_id (incidents s ! k) = iid \<and> resolution_time (incidents s ! k) = None)"
  shows "fst (resolve_incident e iid s)"
    and "incidents (snd (resolve_incident e iid s)) =
      (incidents s)[j := (incidents s ! j)\<lparr>resolution_time := Some (now_at e (env_calls s))\<rparr>]"
    and "audit_log (snd (resolve_incident e iid s)) = audit_log s"
    and "length (all_controls (snd (resolve_incident e iid s))) = length (all_controls s)"
    and "\<forall>i<length (all_controls s).
      (if control_id (all_controls s ! i) \<in> set (affected_controls (incidents s ! j)) \<and>
          status (all_controls s ! i) = NON_COMPLIANT
       then \<exists>k. env_calls s < k \<and> k < env_calls (snd (resolve_incident e iid s)) \<and>
              all_controls (snd (resolve_incident e iid s)) ! i =
                (all_controls s ! i)\<lparr>status := COMPLIANT,
                                      last_assessment_date := Some (now_at e k)\<rparr>
       else all_controls (snd (resolve_incident e iid s)) ! i = all_controls s ! i)"
    and "\<exists>new. alerts (snd (resolve_incident e iid s)) = alerts s @ new \<and>
      map (\<lambda>a. (alert_title a, alert_severity a)) new =
        map (\<lambda>c. (''Control restored: '' @ control_id c, ''low''))
          (filter (\<lambda>c. control_id c \<in> set (affected_controls (incidents s ! j)) \<and>
                        status c = NON_COMPLIANT) (all_controls s))"
proof -
  let ?i' = "(incidents s ! j)\<lparr>resolution_time := Some (now_at e (env_calls s))\<rparr>"
  let ?s1 = "snd (datetime_now e s)"
  let ?f = "restore_body e ?i'"
  let ?P = "\<lambda>c. control_id c \<in> set (affected_controls (incidents s ! j)) \<and> status c = NON_COMPLIANT"
  have s1: "all_controls ?s1 = all_controls s" "alerts ?s1 = alerts s"
    "env_calls ?s1 = Suc (env_calls s)" "audit_log ?s1 = audit_log s"
    by (simp_all add: datetime_now_def all_controls_def)
  from resolve_loop_first_open [OF j, of e s]
  have res: "resolve_incident e iid s =
      (True, (for_all_controls ?f ?s1)\<lparr>incidents := (incidents s)[j := ?i']\<rparr>)"
    by (simp add: resolve_incident_def)
  have "all_controls (snd (resolve_incident e iid s)) = all_controls (for_all_controls ?f ?s1)"
    by (simp add: res all_controls_def)
  also have "\<dots> = fst (for_controls ?f (all_controls ?s1) ?s1)"
    by (rule all_controls_for_all)
  also have "\<dots> = fst (for_controls ?f (all_controls s) ?s1)"
    by (simp only: s1(1))
  finally have acs: "all_controls (snd (resolve_incident e iid s)) =
      fst (for_controls ?f (all_controls s) ?s1)" .
  have calls: "env_calls (snd (resolve_incident e iid s)) =
      env_calls (snd (for_controls ?f (all_controls s) ?s1))"
    by (simp add: res env_calls_for_all_controls s1)
  have al: "alerts (snd (resolve_incident e iid s)) =
      alerts (snd (for_controls ?f (all_controls s) ?s1))"
    by (simp add: res alerts_for_all_controls s1)
  show "fst (resolve_incident e iid s)" by (simp add: res)
  show "incidents (snd (resolve_incident e iid s)) = (incidents s)[j := ?i']"
    by (simp add: res)
  show "audit_log (snd (resolve_incident e iid s)) = audit_log s"
    using grows_for_controls [of ?f ?s1 "all_controls ?s1", OF grows_restore_body]
    by (simp add: res for_all_controls_eq store_controls_def grows_def s1)
  show "length (all_controls (snd (resolve_incident e iid s))) = length (all_controls s)"
    by (simp add: acs length_for_controls)
  show "\<forall>i<length (all_controls s).
      (if ?P (all_controls s ! i)
       then \<exists>k. env_calls s < k \<and> k < env_calls (snd (resolve_incident e iid s)) \<and>
              all_controls (snd (resolve_incident e iid s)) ! i =
                (all_controls s ! i)\<lparr>status := COMPLIANT,
                                      last_assessment_date := Some (now_at e k)\<rparr>
       else all_controls (snd (resolve_incident e iid s)) ! i = all_controls s ! i)"
  proof (intro allI impI)
    fix i
    assume i: "i < length (all_controls s)"
    obtain t where t: "grows ?s1 t"
      "fst (for_controls ?f (all_controls s) ?s1) ! i = fst (?f (all_controls s ! i) t)"
      "grows (snd (?f (all_controls s ! i) t)) (snd (for_controls ?f (all_controls s) ?s1))"
      using for_controls_nth [of ?f i "all_controls s" ?s1, OF grows_restore_body i] by blast
    show "if ?P (all_controls s ! i)
       then \<exists>k. env_calls s < k \<and> k < env_calls (snd (resolve_incident e iid s)) \<and>
              all_controls (snd (resolve_incident e iid s)) ! i =
                (all_controls s ! i)\<lparr>status := COMPLIANT,
                                      last_assessment_date := Some (now_at e k)\<rparr>
       else all_controls (snd (resolve_incident e iid s)) ! i = all_controls s ! i"
    proof (cases "?P (all_controls s ! i)")
      case False
      then have "?f (all_controls s ! i) t = (all_controls s ! i, t)"
        by (intro restore_body_untouched) simp
      with t(2) have "all_controls (snd (resolve_incident e iid s)) ! i = all_controls s ! i"
        by (simp add: acs)
      with False show ?thesis by auto
    next
      case True
      then have r: "fst (?f (all_controls s ! i) t) =
          (all_controls s ! i)\<lparr>status := COMPLIANT,
                                last_assessment_date := Some (now_at e (env_calls t))\<rparr>"
        "env_calls (snd (?f (all_controls s ! i) t)) = env_calls t + 3"
        by (simp_all add: restore_body_restored)
      have "env_calls s < env_calls t" using t(1) s1(3) by (simp add: grows_def)
      moreover have "env_calls t < env_calls (snd (resolve_incident e iid s))"
        using t(3) r(2) by (simp add: calls grows_def)
      ultimately show ?thesis using True r(1) t(2) by (auto simp: acs)
    qed
  qed
  obtain new where new: "alerts (snd (for_controls ?f (all_controls s) ?s1)) = alerts ?s1 @ new"
    "map (\<lambda>a. (alert_title a, alert_severity a)) new =
       concat (map (\<lambda>(c, c'). if ?P c then [(''Control restored: '' @ control_id c, ''low'')] else [])
         (zip (all_controls s) (fst (for_controls ?f (all_controls s) ?s1))))"
    using for_controls_alerts [of ?f "\<lambda>a. (alert_title a, alert_severity a)"
        "\<lambda>(c, c'). if control_id c \<in> set (affected_controls ?i') \<and> status c = NON_COMPLIANT
           then [(''Control restored: '' @ control_id c, ''low'')] else []"
        "all_controls s" ?s1, OF alerts_restore_body]
    by auto
  have "concat (map (\<lambda>(c, c'). if ?P c then [(''Control restored: '' @ control_id c, ''low'')] else [])
         (zip cs cs')) =
      map (\<lambda>c. (''Control restored: '' @ control_id c, ''low'')) (filter ?P cs)"
    if "length cs' = length cs" for cs cs' :: "ControlRequirement list"
    using that by (induction cs cs' rule: list_induct2') auto
  from this [of "fst (for_controls ?f (all_controls s) ?s1)" "all_controls s"] new
  show "\<exists>new. alerts (snd (resolve_incident e iid s)) = alerts s @ new \<and>
      map (\<lambda>a. (alert_title a, alert_severity a)) new =
        map (\<lambda>c. (''Control restored: '' @ control_id c, ''low'')) (filter ?P (all_controls s))"
    by (simp add: al s1 length_for_controls)
qed

lemma monitor_round_perform:
  "monitor_round e s =
     foldl (\<lambda>t op. perform e op t) s
       [Check_compliance_drift, Simulate_incidents, Check_overdue_reviews]"
  by (simp add: monitor_round_def)

subsection \<open>The example states\<close>

lemma alerts_acknowledged_state:
  "alerts acknowledged_state =
     [\<lparr>alert_id = ''ALT-1700000000-0'',
       alert_title = ''Overdue review: A.8.1.1'',
       message = ''Control A.8.1.1 is past its review date'',
       alert_severity = ''medium'',
       timestamp = 63800000000000007,
       acknowledged = True\<rparr>]"
  by (simp add: acknowledged_state_def one_alert_state_def acknowledge_alert_def
      create_alert_def time_time_def datetime_now_def new_manager_def demo_env_def
      str_int_1700000000 str_int_0)

lemma seed_controls:
  "map control_id (all_controls (new_manager demo_env)) =
     [''A.5.1.1'', ''A.6.1.1'', ''A.8.1.1'', ''PCI.1.1'', ''PCI.2.1'', ''PCI.3.4'']"
  "map status (all_controls (new_manager demo_env)) =
     [COMPLIANT, IN_PROGRESS, COMPLIANT, COMPLIANT, NON_COMPLIANT, IN_PROGRESS]"
  "map incident_count (all_controls (new_manager demo_env)) = [0, 0, 0, 0, 2, 0]"
  by (simp_all add: all_controls_def new_manager_def
      load_iso27001_controls_def load_pci_dss_controls_def)

lemma seed_length: "length (all_controls (new_manager demo_env)) = 6"
  using arg_cong [OF seed_controls(1), of length] by simp

lemma seed_nth:
  "i < 6 \<Longrightarrow> control_id (all_controls (new_manager demo_env) ! i) =
     [''A.5.1.1'', ''A.6.1.1'', ''A.8.1.1'', ''PCI.1.1'', ''PCI.2.1'', ''PCI.3.4''] ! i"
  "i < 6 \<Longrightarrow> status (all_controls (new_manager demo_env) ! i) =
     [COMPLIANT, IN_PROGRESS, COMPLIANT, COMPLIANT, NON_COMPLIANT, IN_PROGRESS] ! i"
  "i < 6 \<Longrightarrow> incident_count (all_controls (new_manager demo_env) ! i) = [0, 0, 0, 0, 2, 0] ! i"
  using seed_length
  by (simp_all add: seed_controls [symmetric])

lemma seed_first_assessment:
  "last_assessment_date (all_controls (new_manager demo_env) ! 0) =
     Some (now_at demo_env 0 - timedelta_days 30)"
  by (simp add: all_controls_def new_manager_def load_iso27001_controls_def)

lemma all_controls_half_automated:
  "map control_id (all_controls half_automated_state) =
     [''A.5.1.1'', ''A.6.1.1'', ''A.8.1.1'', ''PCI.1.1'', ''PCI.2.1'', ''PCI.3.4'']"
  "map status (all_controls half_automated_state) =
     [COMPLIANT, IN_PROGRESS, COMPLIANT, COMPLIANT, NON_COMPLIANT, IN_PROGRESS]"
  "automation_level (all_controls half_automated_state ! 1) = Fin (1 / 2)"
  by (simp_all add: half_automated_state_def all_controls_def new_manager_def
      load_iso27001_controls_def load_pci_dss_controls_def)

section \<open>The claims\<close>

text \<open>
  C6. For every standard's control list, the summary's compliance percentage is
  compliant / total * 100 (float division and multiplication) rounded to two decimal
  places, it is the int 0 when the list is empty and exactly 100.0 when the list is not
  empty and every control in it is compliant; total, compliant, non_compliant,
  in_progress and not_assessed are the numbers of controls in the list and in each
  status.
\<close>

theorem get_standard_summary_counts_and_percentage:
  "total_controls (get_standard_summary controls std) = int (length controls) \<and>
   compliant (get_standard_summary controls std) =
     int (card {i. i < length controls \<and> status (controls ! i) = COMPLIANT}) \<and>
   non_compliant (get_standard_summary controls std) =
     int (card {i. i < length controls \<and> status (controls ! i) = NON_COMPLIANT}) \<and>
   in_progress (get_standard_summary controls std) =
     int (card {i. i < length controls \<and> status (controls ! i) = IN_PROGRESS}) \<and>
   not_assessed (get_standard_summary controls std) =
     int (card {i. i < length controls \<and> status (controls ! i) = NOT_ASSESSED}) \<and>
   compliance_percentage (get_standard_summary controls std) =
     (if controls = [] then PyInt 0
      else PyFloat (py_round2 (fmul
             (int_truediv (int (card {i. i < length controls \<and> status (controls ! i) = COMPLIANT}))
                          (int (length controls)))
             (Fin 100)))) \<and>
   (controls \<noteq> [] \<and> (\<forall>c\<in>set controls. status c = COMPLIANT) \<longrightarrow>
      compliance_percentage (get_standard_summary controls std) = PyFloat (Fin 100))"
proof -
  have full: "compliance_percentage (get_standard_summary controls std) = PyFloat (Fin 100)"
    if "controls \<noteq> []" "\<forall>c\<in>set controls. status c = COMPLIANT"
  proof -
    have "count_status COMPLIANT controls = int (length controls)"
      using that(2) by (rule count_status_all)
    moreover have "0 < int (length controls)" using that(1) by simp
    ultimately show ?thesis
      using that(1)
      by (simp add: get_standard_summary_def Let_def int_truediv_self rnd_100 py_round2_100
          del: py_round2.simps)
  qed
  show ?thesis
    using full
    by (simp add: get_standard_summary_def Let_def count_status_card del: py_round2.simps)
qed

theorem get_standard_summary_witness:
  "compliant_iso_controls \<noteq> [] \<and>
   map status compliant_iso_controls = [COMPLIANT, COMPLIANT] \<and>
   total_controls (get_standard_summary compliant_iso_controls ''ISO27001'') = 2 \<and>
   compliance_percentage (get_standard_summary compliant_iso_controls ''ISO27001'') =
     PyFloat (Fin 100)"
proof -
  have m: "map status compliant_iso_controls = [COMPLIANT, COMPLIANT]"
    by (simp add: compliant_iso_controls_def load_iso27001_controls_def)
  have h: "compliant_iso_controls \<noteq> [] \<and>
      (\<forall>c\<in>set compliant_iso_controls. status c = COMPLIANT)"
    by (simp add: compliant_iso_controls_def load_iso27001_controls_def)
  have l: "length compliant_iso_controls = 2"
    by (simp add: compliant_iso_controls_def load_iso27001_controls_def)
  note summary = get_standard_summary_counts_and_percentage [of compliant_iso_controls "''ISO27001''"]
  from summary have t: "total_controls (get_standard_summary compliant_iso_controls ''ISO27001'') =
      int (length compliant_iso_controls)"
    by (rule conjunct1)
  from summary h have p: "compliance_percentage
      (get_standard_summary compliant_iso_controls ''ISO27001'') = PyFloat (Fin 100)"
    by blast
  from h m t p l show ?thesis by simp
qed

text \<open>
  C10. Acknowledging an id whose alert (the first alert of the sink with that id) is
  already acknowledged returns success and leaves the whole state as it is; for every
  alert of the sink, acknowledging its id succeeds; and after a successful acknowledge, a
  second acknowledge of the same id returns success again and changes nothing.
\<close>

theorem acknowledge_alert_idempotent:
  "(find (\<lambda>a. alert_id a = aid) (alerts s) = Some a \<and> acknowledged a \<longrightarrow>
      acknowledge_alert aid s = (True, s)) \<and>
   (a \<in> set (alerts s) \<longrightarrow> fst (acknowledge_alert (alert_id a) s)) \<and>
   (fst (acknowledge_alert aid s) \<longrightarrow>
      acknowledge_alert aid (snd (acknowledge_alert aid s)) =
        (True, snd (acknowledge_alert aid s)))"
proof (intro conjI impI)
  assume "find (\<lambda>a. alert_id a = aid) (alerts s) = Some a \<and> acknowledged a"
  then have "acknowledge_loop aid (alerts s) = Some (alerts s)"
    by (simp add: acknowledge_loop_find)
  then show "acknowledge_alert aid s = (True, s)"
    by (simp add: acknowledge_alert_def)
next
  assume "a \<in> set (alerts s)"
  then obtain as' where "acknowledge_loop (alert_id a) (alerts s) = Some as'"
    using acknowledge_loop_mem by blast
  then show "fst (acknowledge_alert (alert_id a) s)"
    by (simp add: acknowledge_alert_def)
next
  assume "fst (acknowledge_alert aid s)"
  then obtain as' where 1: "acknowledge_loop aid (alerts s) = Some as'"
    by (cases "acknowledge_loop aid (alerts s)") (auto simp: acknowledge_alert_def)
  then have "acknowledge_loop aid as' = Some as'"
    by (rule acknowledge_loop_twice)
  with 1 show "acknowledge_alert aid (snd (acknowledge_alert aid s)) =
        (True, snd (acknowledge_alert aid s))"
    by (simp add: acknowledge_alert_def)
qed

theorem acknowledge_alert_idempotent_witness:
  "find (\<lambda>a. alert_id a = ''ALT-1700000000-0'') (alerts acknowledged_state)
     = Some (hd (alerts acknowledged_state)) \<and>
   acknowledged (hd (alerts acknowledged_state)) \<and>
   hd (alerts acknowledged_state) \<in> set (alerts acknowledged_state) \<and>
   acknowledge_alert ''ALT-1700000000-0'' acknowledged_state = (True, acknowledged_state)"
proof -
  have h: "find (\<lambda>a. alert_id a = ''ALT-1700000000-0'') (alerts acknowledged_state)
     = Some (hd (alerts acknowledged_state)) \<and>
   acknowledged (hd (alerts acknowledged_state))"
    by (simp add: alerts_acknowledged_state)
  have m: "hd (alerts acknowledged_state) \<in> set (alerts acknowledged_state)"
    by (simp add: alerts_acknowledged_state)
  from acknowledge_alert_idempotent
         [of "''ALT-1700000000-0''" acknowledged_state "hd (alerts acknowledged_state)"] h m
  show ?thesis by blast
qed

text \<open>
  C5. One application of an incident's impact increments the incident count of every
  control whose id is in the affected list by exactly 1, turns exactly those of them that
  are compliant into non-compliant ones, leaves every other control as it is, and appends
  one alert with the incident's severity for each control it turned. Applied twice, an
  affected control that was compliant has its incident count incremented by exactly 2 and
  is non-compliant.
\<close>

theorem apply_incident_impact_once_and_twice:
  "length (all_controls (apply_incident_impact e incident s)) = length (all_controls s) \<and>
   (\<forall>i<length (all_controls s).
      all_controls (apply_incident_impact e incident s) ! i =
        (if control_id (all_controls s ! i) \<in> set (affected_controls incident) then
           (if status (all_controls s ! i) = COMPLIANT
            then (all_controls s ! i)\<lparr>incident_count := incident_count (all_controls s ! i) + 1,
                                      status := NON_COMPLIANT\<rparr>
            else (all_controls s ! i)\<lparr>incident_count := incident_count (all_controls s ! i) + 1\<rparr>)
         else all_controls s ! i)) \<and>
   (\<exists>new. alerts (apply_incident_impact e incident s) = alerts s @ new \<and>
      map (\<lambda>a. (alert_title a, alert_severity a)) new =
        map (\<lambda>c. (''Incident impact: '' @ control_id c, risk_value (severity incident)))
          (filter (\<lambda>c. control_id c \<in> set (affected_controls incident) \<and> status c = COMPLIANT)
             (all_controls s))) \<and>
   (\<forall>i<length (all_controls s).
      control_id (all_controls s ! i) \<in> set (affected_controls incident) \<and>
      status (all_controls s ! i) = COMPLIANT \<longrightarrow>
        incident_count (all_controls
            (apply_incident_impact e incident (apply_incident_impact e incident s)) ! i) =
          incident_count (all_controls s ! i) + 2 \<and>
        status (all_controls
            (apply_incident_impact e incident (apply_incident_impact e incident s)) ! i) =
          NON_COMPLIANT)"
proof -
  let ?P = "\<lambda>c. control_id c \<in> set (affected_controls incident) \<and> status c = COMPLIANT"
  have all: "all_controls (apply_incident_impact e incident t) =
      map (\<lambda>c. fst (impact_body e incident c t)) (all_controls t)" for t
    by (simp add: apply_incident_impact_def all_controls_for_all fst_for_controls_impact)
  have len: "length (all_controls (apply_incident_impact e incident s)) = length (all_controls s)"
    by (simp add: all)
  have once: "\<forall>i<length (all_controls s).
      all_controls (apply_incident_impact e incident s) ! i =
        (if control_id (all_controls s ! i) \<in> set (affected_controls incident) then
           (if status (all_controls s ! i) = COMPLIANT
            then (all_controls s ! i)\<lparr>incident_count := incident_count (all_controls s ! i) + 1,
                                      status := NON_COMPLIANT\<rparr>
            else (all_controls s ! i)\<lparr>incident_count := incident_count (all_controls s ! i) + 1\<rparr>)
         else all_controls s ! i)"
    by (simp add: all fst_impact_body)
  have twice: "\<forall>i<length (all_controls s).
      control_id (all_controls s ! i) \<in> set (affected_controls incident) \<and>
      status (all_controls s ! i) = COMPLIANT \<longrightarrow>
        incident_count (all_controls
            (apply_incident_impact e incident (apply_incident_impact e incident s)) ! i) =
          incident_count (all_controls s ! i) + 2 \<and>
        status (all_controls
            (apply_incident_impact e incident (apply_incident_impact e incident s)) ! i) =
          NON_COMPLIANT"
    by (simp add: all [of "apply_incident_impact e incident s"] all [of s] fst_impact_body)
  obtain new where new: "alerts (snd (for_controls (impact_body e incident) (all_controls s) s)) =
        alerts s @ new"
    "map (\<lambda>a. (alert_title a, alert_severity a)) new =
       concat (map (\<lambda>(c, c'). if ?P c
           then [(''Incident impact: '' @ control_id c, risk_value (severity incident))] else [])
         (zip (all_controls s) (fst (for_controls (impact_body e incident) (all_controls s) s))))"
    using for_controls_alerts [of "impact_body e incident"
        "\<lambda>a. (alert_title a, alert_severity a)"
        "\<lambda>(c, c'). if ?P c
           then [(''Incident impact: '' @ control_id c, risk_value (severity incident))] else []"
        "all_controls s" s, OF alerts_impact_body]
    by blast
  have "concat (map (\<lambda>(c, c'). if ?P c
           then [(''Incident impact: '' @ control_id c, risk_value (severity incident))] else [])
         (zip cs (map g cs))) =
      map (\<lambda>c. (''Incident impact: '' @ control_id c, risk_value (severity incident)))
          (filter ?P cs)" for cs and g :: "ControlRequirement \<Rightarrow> ControlRequirement"
    by (induction cs) auto
  with new have al: "\<exists>new. alerts (apply_incident_impact e incident s) = alerts s @ new \<and>
      map (\<lambda>a. (alert_title a, alert_severity a)) new =
        map (\<lambda>c. (''Incident impact: '' @ control_id c, risk_value (severity incident)))
          (filter ?P (all_controls s))"
    by (simp add: apply_incident_impact_def alerts_for_all_controls
        fst_for_controls_impact)
  from len once al twice show ?thesis by blast
qed

theorem apply_incident_impact_witness:
  "control_id (all_controls (new_manager demo_env) ! 3) = ''PCI.1.1'' \<and>
   affected_controls firewall_incident = [''PCI.1.1''] \<and>
   status (all_controls (new_manager demo_env) ! 3) = COMPLIANT \<and>
   incident_count (all_controls (new_manager demo_env) ! 3) = 0 \<and>
   incident_count (all_controls (apply_incident_impact demo_env firewall_incident
       (apply_incident_impact demo_env firewall_incident (new_manager demo_env))) ! 3) = 2 \<and>
   status (all_controls (apply_incident_impact demo_env firewall_incident
       (apply_incident_impact demo_env firewall_incident (new_manager demo_env))) ! 3) =
     NON_COMPLIANT"
proof -
  have h: "control_id (all_controls (new_manager demo_env) ! 3) = ''PCI.1.1''"
    "affected_controls firewall_incident = [''PCI.1.1'']"
    "status (all_controls (new_manager demo_env) ! 3) = COMPLIANT"
    "incident_count (all_controls (new_manager demo_env) ! 3) = 0"
    by (simp_all add: seed_nth firewall_incident_def)
  note twice = apply_incident_impact_once_and_twice
      [of demo_env firewall_incident "new_manager demo_env",
       THEN conjunct2, THEN conjunct2, THEN conjunct2, rule_format, of 3]
  from twice h seed_length show ?thesis by simp
qed

text \<open>
  C7. A drift check leaves every control that is not compliant or has no last assessment
  date as it is. For a compliant control with a last assessment date it reads the clock
  (call \<open>k\<close>) and draws a random number (call \<open>k + 1\<close>); with \<open>days_since\<close> the
  whole days from the last assessment to that reading and drift probability
  drift factor * (days_since / 30) * (1 - automation level), the control becomes
  in_progress exactly when the number drawn is less than drift probability * 0.3, and is
  unchanged otherwise. The alerts appended are one for each control that changed, in
  order, with the title \<open>Compliance drift detected for\<close> followed by the control id
  and the control's risk level as severity.
\<close>

theorem check_compliance_drift_transitions:
  "length (all_controls (check_compliance_drift e s)) = length (all_controls s) \<and>
   (\<forall>i<length (all_controls s).
      (status (all_controls s ! i) \<noteq> COMPLIANT \<or> last_assessment_date (all_controls s ! i) = None \<longrightarrow>
         all_controls (check_compliance_drift e s) ! i = all_controls s ! i) \<and>
      (\<forall>assessed.
         status (all_controls s ! i) = COMPLIANT \<and>
         last_assessment_date (all_controls s ! i) = Some assessed \<longrightarrow>
         (\<exists>k. env_calls s \<le> k \<and> Suc k < env_calls (check_compliance_drift e s) \<and>
            all_controls (check_compliance_drift e s) ! i =
              (if flt (random_at e (Suc k))
                    (fmul (fmul (fmul (compliance_drift_factor (all_controls s ! i))
                                      (int_truediv (days_between (now_at e k) assessed) 30))
                                (fsub (Fin 1) (automation_level (all_controls s ! i))))
                          (float_lit (3 / 10)))
               then (all_controls s ! i)\<lparr>status := IN_PROGRESS\<rparr>
               else all_controls s ! i)))) \<and>
   (\<exists>new. alerts (check_compliance_drift e s) = alerts s @ new \<and>
      map (\<lambda>a. (alert_title a, alert_severity a)) new =
        map (\<lambda>(c, c'). (''Compliance drift detected for '' @ control_id c, risk_value (risk_level c)))
          (filter (\<lambda>(c, c'). c' \<noteq> c)
             (zip (all_controls s) (all_controls (check_compliance_drift e s)))))"
proof (intro conjI allI impI)
  show "length (all_controls (check_compliance_drift e s)) = length (all_controls s)"
    by (simp add: check_compliance_drift_def all_controls_for_all length_for_controls)
next
  fix i
  assume i: "i < length (all_controls s)"
  obtain t where t: "grows s t"
    "fst (for_controls (drift_body e) (all_controls s) s) ! i = fst (drift_body e (all_controls s ! i) t)"
    "grows (snd (drift_body e (all_controls s ! i) t)) (snd (for_controls (drift_body e) (all_controls s) s))"
    using for_controls_nth [of "drift_body e" i "all_controls s" s, OF grows_drift_body i] by blast
  {
    assume "status (all_controls s ! i) \<noteq> COMPLIANT \<or> last_assessment_date (all_controls s ! i) = None"
    then have "drift_body e (all_controls s ! i) t = (all_controls s ! i, t)"
      by (rule drift_body_untouched)
    with t(2) show "all_controls (check_compliance_drift e s) ! i = all_controls s ! i"
      by (simp add: check_compliance_drift_def all_controls_for_all)
  }
  {
    fix assessed
    assume a: "status (all_controls s ! i) = COMPLIANT \<and>
         last_assessment_date (all_controls s ! i) = Some assessed"
    have 1: "env_calls s \<le> env_calls t" using t(1) by (simp add: grows_def)
    have "env_calls t + 2 \<le> env_calls (snd (drift_body e (all_controls s ! i) t))"
      using a by (intro drift_body_eligible(2)) auto
    moreover have "env_calls (snd (drift_body e (all_controls s ! i) t)) \<le>
        env_calls (check_compliance_drift e s)"
      using t(3) by (simp add: grows_def check_compliance_drift_def env_calls_for_all_controls)
    ultimately have 2: "Suc (env_calls t) < env_calls (check_compliance_drift e s)" by simp
    have 3: "all_controls (check_compliance_drift e s) ! i =
              (if flt (random_at e (Suc (env_calls t)))
                    (fmul (fmul (fmul (compliance_drift_factor (all_controls s ! i))
                                      (int_truediv (days_between (now_at e (env_calls t)) assessed) 30))
                                (fsub (Fin 1) (automation_level (all_controls s ! i))))
                          (float_lit (3 / 10)))
               then (all_controls s ! i)\<lparr>status := IN_PROGRESS\<rparr>
               else all_controls s ! i)"
      using a t(2) drift_body_eligible(1) [of "all_controls s ! i" assessed e t]
      by (simp add: check_compliance_drift_def all_controls_for_all)
    from 1 2 3 show "\<exists>k. env_calls s \<le> k \<and> Suc k < env_calls (check_compliance_drift e s) \<and>
            all_controls (check_compliance_drift e s) ! i =
              (if flt (random_at e (Suc k))
                    (fmul (fmul (fmul (compliance_drift_factor (all_controls s ! i))
                                      (int_truediv (days_between (now_at e k) assessed) 30))
                                (fsub (Fin 1) (automation_level (all_controls s ! i))))
                          (float_lit (3 / 10)))
               then (all_controls s ! i)\<lparr>status := IN_PROGRESS\<rparr>
               else all_controls s ! i)"
      by blast
  }
next
  obtain new where new: "alerts (snd (for_controls (drift_body e) (all_controls s) s)) = alerts s @ new"
    "map (\<lambda>a. (alert_title a, alert_severity a)) new =
       concat (map (\<lambda>(c, c'). if c' \<noteq> c
           then [(''Compliance drift detected for '' @ control_id c, risk_value (risk_level c))]
           else [])
         (zip (all_controls s) (fst (for_controls (drift_body e) (all_controls s) s))))"
    using for_controls_alerts [of "drift_body e" "\<lambda>a. (alert_title a, alert_severity a)"
        "\<lambda>(c, c'). if c' \<noteq> c
           then [(''Compliance drift detected for '' @ control_id c, risk_value (risk_level c))]
           else []" "all_controls s" s, OF alerts_drift_body]
    by blast
  have "concat (map (\<lambda>(c, c'). if c' \<noteq> c
           then [(''Compliance drift detected for '' @ control_id c, risk_value (risk_level c))]
           else []) xs) =
      map (\<lambda>(c, c'). (''Compliance drift detected for '' @ control_id c, risk_value (risk_level c)))
          (filter (\<lambda>(c, c'). c' \<noteq> c) xs)" for xs :: "(ControlRequirement \<times> ControlRequirement) list"
    by (induction xs) auto
  with new show "\<exists>new. alerts (check_compliance_drift e s) = alerts s @ new \<and>
      map (\<lambda>a. (alert_title a, alert_severity a)) new =
        map (\<lambda>(c, c'). (''Compliance drift detected for '' @ control_id c, risk_value (risk_level c)))
          (filter (\<lambda>(c, c'). c' \<noteq> c)
             (zip (all_controls s) (all_controls (check_compliance_drift e s))))"
    by (simp add: check_compliance_drift_def alerts_for_all_controls all_controls_for_all)
qed

theorem check_compliance_drift_witness:
  "status (all_controls (new_manager demo_env) ! 1) = IN_PROGRESS \<and>
   all_controls (check_compliance_drift demo_env (new_manager demo_env)) ! 1 =
     all_controls (new_manager demo_env) ! 1 \<and>
   status (all_controls (new_manager demo_env) ! 0) = COMPLIANT \<and>
   last_assessment_date (all_controls (new_manager demo_env) ! 0) =
     Some (now_at demo_env 0 - timedelta_days 30) \<and>
   (\<exists>k. env_calls (new_manager demo_env) \<le> k \<and>
        Suc k < env_calls (check_compliance_drift demo_env (new_manager demo_env)) \<and>
        all_controls (check_compliance_drift demo_env (new_manager demo_env)) ! 0 =
          (if flt (random_at demo_env (Suc k))
                (fmul (fmul (fmul (compliance_drift_factor (all_controls (new_manager demo_env) ! 0))
                                  (int_truediv (days_between (now_at demo_env k)
                                     (now_at demo_env 0 - timedelta_days 30)) 30))
                            (fsub (Fin 1) (automation_level (all_controls (new_manager demo_env) ! 0))))
                      (float_lit (3 / 10)))
           then (all_controls (new_manager demo_env) ! 0)\<lparr>status := IN_PROGRESS\<rparr>
           else all_controls (new_manager demo_env) ! 0))"
proof -
  have s1: "status (all_controls (new_manager demo_env) ! 1) = IN_PROGRESS"
    and s0: "status (all_controls (new_manager demo_env) ! 0) = COMPLIANT"
    and l0: "last_assessment_date (all_controls (new_manager demo_env) ! 0) =
     Some (now_at demo_env 0 - timedelta_days 30)"
    by (simp_all add: seed_nth seed_first_assessment)
  have i1: "1 < length (all_controls (new_manager demo_env))"
    and i0: "0 < length (all_controls (new_manager demo_env))"
    by (simp_all add: seed_length)
  note drift = check_compliance_drift_transitions [of demo_env "new_manager demo_env",
      THEN conjunct2, THEN conjunct1]
  from s1 have "status (all_controls (new_manager demo_env) ! 1) \<noteq> COMPLIANT \<or>
      last_assessment_date (all_controls (new_manager demo_env) ! 1) = None"
    by simp
  with drift [rule_format, OF i1, THEN conjunct1]
  have u: "all_controls (check_compliance_drift demo_env (new_manager demo_env)) ! 1 =
     all_controls (new_manager demo_env) ! 1"
    by (rule mp)
  from s0 l0 have "status (all_controls (new_manager demo_env) ! 0) = COMPLIANT \<and>
      last_assessment_date (all_controls (new_manager demo_env) ! 0) =
        Some (now_at demo_env 0 - timedelta_days 30)"
    by simp
  with drift [rule_format, OF i0, THEN conjunct2, THEN spec,
      of "now_at demo_env 0 - timedelta_days 30"]
  have d: "\<exists>k. env_calls (new_manager demo_env) \<le> k \<and>
        Suc k < env_calls (check_compliance_drift demo_env (new_manager demo_env)) \<and>
        all_controls (check_compliance_drift demo_env (new_manager demo_env)) ! 0 =
          (if flt (random_at demo_env (Suc k))
                (fmul (fmul (fmul (compliance_drift_factor (all_controls (new_manager demo_env) ! 0))
                                  (int_truediv (days_between (now_at demo_env k)
                                     (now_at demo_env 0 - timedelta_days 30)) 30))
                            (fsub (Fin 1) (automation_level (all_controls (new_manager demo_env) ! 0))))
                      (float_lit (3 / 10)))
           then (all_controls (new_manager demo_env) ! 0)\<lparr>status := IN_PROGRESS\<rparr>
           else all_controls (new_manager demo_env) ! 0)"
    by (rule mp)
  show ?thesis by (intro conjI s1 u s0 l0 d)
qed

text \<open>
  C4. \<open>implement_solution\<close> returns failure and changes nothing when no control has the
  id, or the control with the id is neither non-compliant nor in progress. Otherwise it
  returns success, the first control with the id and such a status becomes compliant
  with the clock reading as its last assessment date, and no other control changes. With
  solution type \<open>automation\<close> the control's automation level becomes
  min(1.0, automation level + 0.3), which is 0.8 for the level 0.5, and its drift factor
  is multiplied by 0.7.
\<close>

theorem implement_solution_outcomes:
  "((\<forall>c\<in>set (all_controls s). control_id c = cid \<longrightarrow>
        status c \<noteq> NON_COMPLIANT \<and> status c \<noteq> IN_PROGRESS) \<longrightarrow>
      implement_solution e cid solution_type s = (False, s)) \<and>
   (\<forall>i<length (all_controls s).
      control_id (all_controls s ! i) = cid \<and>
      (status (all_controls s ! i) = NON_COMPLIANT \<or> status (all_controls s ! i) = IN_PROGRESS) \<and>
      (\<forall>j<i. control_id (all_controls s ! j) = cid \<longrightarrow>
         status (all_controls s ! j) \<noteq> NON_COMPLIANT \<and>
         status (all_controls s ! j) \<noteq> IN_PROGRESS) \<longrightarrow>
      fst (implement_solution e cid solution_type s) \<and>
      length (all_controls (snd (implement_solution e cid solution_type s))) =
        length (all_controls s) \<and>
      (\<forall>j<length (all_controls s). j \<noteq> i \<longrightarrow>
         all_controls (snd (implement_solution e cid solution_type s)) ! j = all_controls s ! j) \<and>
      status (all_controls (snd (implement_solution e cid solution_type s)) ! i) = COMPLIANT \<and>
      last_assessment_date (all_controls (snd (implement_solution e cid solution_type s)) ! i) =
        Some (now_at e (env_calls s)) \<and>
      (solution_type = ''automation'' \<longrightarrow>
         automation_level (all_controls (snd (implement_solution e cid solution_type s)) ! i) =
           py_min (Fin 1) (fadd (automation_level (all_controls s ! i)) (float_lit (3 / 10))) \<and>
         compliance_drift_factor (all_controls (snd (implement_solution e cid solution_type s)) ! i) =
           fmul (compliance_drift_factor (all_controls s ! i)) (float_lit (7 / 10)) \<and>
         (automation_level (all_controls s ! i) = Fin (1 / 2) \<longrightarrow>
            automation_level (all_controls (snd (implement_solution e cid solution_type s)) ! i) =
              float_lit (8 / 10))))"
proof (rule conjI)
  show "(\<forall>c\<in>set (all_controls s). control_id c = cid \<longrightarrow>
        status c \<noteq> NON_COMPLIANT \<and> status c \<noteq> IN_PROGRESS) \<longrightarrow>
      implement_solution e cid solution_type s = (False, s)"
    by (simp add: implement_solution_def implement_loop_None)
next
  show "\<forall>i<length (all_controls s).
      control_id (all_controls s ! i) = cid \<and>
      (status (all_controls s ! i) = NON_COMPLIANT \<or> status (all_controls s ! i) = IN_PROGRESS) \<and>
      (\<forall>j<i. control_id (all_controls s ! j) = cid \<longrightarrow>
         status (all_controls s ! j) \<noteq> NON_COMPLIANT \<and>
         status (all_controls s ! j) \<noteq> IN_PROGRESS) \<longrightarrow>
      fst (implement_solution e cid solution_type s) \<and>
      length (all_controls (snd (implement_solution e cid solution_type s))) =
        length (all_controls s) \<and>
      (\<forall>j<length (all_controls s). j \<noteq> i \<longrightarrow>
         all_controls (snd (implement_solution e cid solution_type s)) ! j = all_controls s ! j) \<and>
      status (all_controls (snd (implement_solution e cid solution_type s)) ! i) = COMPLIANT \<and>
      last_assessment_date (all_controls (snd (implement_solution e cid solution_type s)) ! i) =
        Some (now_at e (env_calls s)) \<and>
      (solution_type = ''automation'' \<longrightarrow>
         automation_level (all_controls (snd (implement_solution e cid solution_type s)) ! i) =
           py_min (Fin 1) (fadd (automation_level (all_controls s ! i)) (float_lit (3 / 10))) \<and>
         compliance_drift_factor (all_controls (snd (implement_solution e cid solution_type s)) ! i) =
           fmul (compliance_drift_factor (all_controls s ! i)) (float_lit (7 / 10)) \<and>
         (automation_level (all_controls s ! i) = Fin (1 / 2) \<longrightarrow>
            automation_level (all_controls (snd (implement_solution e cid solution_type s)) ! i) =
              float_lit (8 / 10)))"
  proof (intro allI impI)
  fix i
  assume i: "i < length (all_controls s)"
    and h: "control_id (all_controls s ! i) = cid \<and>
      (status (all_controls s ! i) = NON_COMPLIANT \<or> status (all_controls s ! i) = IN_PROGRESS) \<and>
      (\<forall>j<i. control_id (all_controls s ! j) = cid \<longrightarrow>
         status (all_controls s ! j) \<noteq> NON_COMPLIANT \<and>
         status (all_controls s ! j) \<noteq> IN_PROGRESS)"
  let ?c' = "(improve_control solution_type
                ((all_controls s ! i)\<lparr>status := COMPLIANT,
                           last_assessment_date := Some (now_at e (env_calls s))\<rparr>))
              \<lparr>control_notes := ''Solution: '' @ solution_description solution_type\<rparr>"
  from i h obtain s' where
    "implement_loop e cid solution_type (all_controls s) s = Some ((all_controls s)[i := ?c'], s')"
    using implement_loop_first [of i "all_controls s" cid e solution_type s] by blast
  then have res: "implement_solution e cid solution_type s =
      (True, store_controls ((all_controls s)[i := ?c']) s')"
    by (simp add: implement_solution_def)
  have acs: "all_controls (snd (implement_solution e cid solution_type s)) =
      (all_controls s)[i := ?c']"
    by (simp add: res all_controls_store)
  show "fst (implement_solution e cid solution_type s) \<and>
      length (all_controls (snd (implement_solution e cid solution_type s))) =
        length (all_controls s) \<and>
      (\<forall>j<length (all_controls s). j \<noteq> i \<longrightarrow>
         all_controls (snd (implement_solution e cid solution_type s)) ! j = all_controls s ! j) \<and>
      status (all_controls (snd (implement_solution e cid solution_type s)) ! i) = COMPLIANT \<and>
      last_assessment_date (all_controls (snd (implement_solution e cid solution_type s)) ! i) =
        Some (now_at e (env_calls s)) \<and>
      (solution_type = ''automation'' \<longrightarrow>
         automation_level (all_controls (snd (implement_solution e cid solution_type s)) ! i) =
           py_min (Fin 1) (fadd (automation_level (all_controls s ! i)) (float_lit (3 / 10))) \<and>
         compliance_drift_factor (all_controls (snd (implement_solution e cid solution_type s)) ! i) =
           fmul (compliance_drift_factor (all_controls s ! i)) (float_lit (7 / 10)) \<and>
         (automation_level (all_controls s ! i) = Fin (1 / 2) \<longrightarrow>
            automation_level (all_controls (snd (implement_solution e cid solution_type s)) ! i) =
              float_lit (8 / 10)))"
    unfolding acs
    using i
    by (simp add: res improve_control_def automation_half_plus_three_tenths)
  qed
qed

theorem implement_solution_witness:
  "control_id (all_controls half_automated_state ! 1) = ''A.6.1.1'' \<and>
   status (all_controls half_automated_state ! 1) = IN_PROGRESS \<and>
   automation_level (all_controls half_automated_state ! 1) = Fin (1 / 2) \<and>
   fst (implement_solution demo_env ''A.6.1.1'' ''automation'' half_automated_state) \<and>
   status (all_controls
     (snd (implement_solution demo_env ''A.6.1.1'' ''automation'' half_automated_state)) ! 1) =
     COMPLIANT \<and>
   automation_level (all_controls
     (snd (implement_solution demo_env ''A.6.1.1'' ''automation'' half_automated_state)) ! 1) =
     float_lit (8 / 10) \<and>
   implement_solution demo_env ''A.5.1.1'' ''automation'' half_automated_state =
     (False, half_automated_state)"
proof -
  have ids: "map control_id (all_controls half_automated_state) =
     [''A.5.1.1'', ''A.6.1.1'', ''A.8.1.1'', ''PCI.1.1'', ''PCI.2.1'', ''PCI.3.4'']"
    and sts: "map status (all_controls half_automated_state) =
     [COMPLIANT, IN_PROGRESS, COMPLIANT, COMPLIANT, NON_COMPLIANT, IN_PROGRESS]"
    and al: "automation_level (all_controls half_automated_state ! 1) = Fin (1 / 2)"
    by (rule all_controls_half_automated)+
  have len: "length (all_controls half_automated_state) = 6"
    using arg_cong [OF ids, of length] by simp
  have id1: "control_id (all_controls half_automated_state ! 1) = ''A.6.1.1''"
    using arg_cong [OF ids, of "\<lambda>xs. xs ! 1"] len by simp
  have st1: "status (all_controls half_automated_state ! 1) = IN_PROGRESS"
    using arg_cong [OF sts, of "\<lambda>xs. xs ! 1"] len by simp
  have id0: "control_id (all_controls half_automated_state ! 0) \<noteq> ''A.6.1.1''"
    using arg_cong [OF ids, of "\<lambda>xs. xs ! 0"] len by simp
  have first: "\<forall>j<1. control_id (all_controls half_automated_state ! j) = ''A.6.1.1'' \<longrightarrow>
         status (all_controls half_automated_state ! j) \<noteq> NON_COMPLIANT \<and>
         status (all_controls half_automated_state ! j) \<noteq> IN_PROGRESS"
    using id0 by simp
  have none: "\<forall>c\<in>set (all_controls half_automated_state). control_id c = ''A.5.1.1'' \<longrightarrow>
        status c \<noteq> NON_COMPLIANT \<and> status c \<noteq> IN_PROGRESS"
    by (simp add: half_automated_state_def all_controls_def new_manager_def
      load_iso27001_controls_def load_pci_dss_controls_def)
  note T1 = implement_solution_outcomes [of half_automated_state "''A.6.1.1''" demo_env "''automation''",
      THEN conjunct2, rule_format, of 1]
  note T2 = implement_solution_outcomes [of half_automated_state "''A.5.1.1''" demo_env "''automation''",
      THEN conjunct1, THEN mp, OF none]
  from T1 len id1 st1 first al T2 show ?thesis
    by (simp add: automation_half_plus_three_tenths)
qed

text \<open>
  C8. Over every sequence of engine operations (drift check, incident simulation,
  incident impact, review check, status update, forced incident, incident resolution,
  solution implementation, alert acknowledgment) the registry keeps its controls, in
  their places and with their ids, and no control's incident count decreases.
\<close>

theorem incident_count_never_decreases:
  "length (all_controls (foldl (\<lambda>t op. perform e op t) s ops)) = length (all_controls s) \<and>
   (\<forall>i<length (all_controls s).
      control_id (all_controls (foldl (\<lambda>t op. perform e op t) s ops) ! i) =
        control_id (all_controls s ! i) \<and>
      incident_count (all_controls s ! i) \<le>
        incident_count (all_controls (foldl (\<lambda>t op. perform e op t) s ops) ! i))"
  using counted_perform_all [of s e ops]
  by (simp add: list_all2_conv_all_nth same_control_counted_def)

theorem incident_count_never_decreases_witness:
  "4 < length (all_controls (new_manager demo_env)) \<and>
   incident_count (all_controls (new_manager demo_env) ! 4) = 2 \<and>
   control_id (all_controls (foldl (\<lambda>t op. perform demo_env op t) (new_manager demo_env)
      [Force_incident, Check_overdue_reviews, Resolve_incident ''SEC-001-1700000000'']) ! 4) =
     ''PCI.2.1'' \<and>
   2 \<le> incident_count (all_controls (foldl (\<lambda>t op. perform demo_env op t) (new_manager demo_env)
      [Force_incident, Check_overdue_reviews, Resolve_incident ''SEC-001-1700000000'']) ! 4)"
proof -
  have h: "4 < length (all_controls (new_manager demo_env))"
    by (simp add: seed_length)
  have c: "incident_count (all_controls (new_manager demo_env) ! 4) = 2"
    "control_id (all_controls (new_manager demo_env) ! 4) = ''PCI.2.1''"
    by (simp_all add: seed_nth)
  note mono = incident_count_never_decreases [of demo_env "new_manager demo_env"
      "[Force_incident, Check_overdue_reviews, Resolve_incident ''SEC-001-1700000000'']",
      THEN conjunct2, rule_format, OF h]
  from mono h c show ?thesis by simp
qed

text \<open>
  C1. Incident identifiers are meant to be unique across the ledger. An identifier is
  the template code followed by the clock's whole second, so two incidents made from
  the same template within one second share it: after two calls of
  \<open>force_incident\<close> on a fresh manager, both in the second 1700000000 and both
  drawing the first template, the ledger holds two incidents with the id
  \<open>SEC-001-1700000000\<close>.
\<close>

theorem duplicate_incident_id_reached:
  "map incident_id (incidents twice_forced) = [''SEC-001-1700000000'', ''SEC-001-1700000000'']"
  by (simp add: incidents_twice_forced force_incident_id_demo)

text \<open>
  C2. Resolving the id of an incident that is already resolved is meant to fail and to
  change nothing. With the two incidents of C1 in the ledger and the first of them
  resolved, \<open>resolve_incident\<close> on their id returns success and sets the resolution
  time of the second.
\<close>

theorem resolve_incident_succeeds_on_resolved_duplicate:
  "incident_id (incidents once_resolved ! 0) = ''SEC-001-1700000000'' \<and>
   resolution_time (incidents once_resolved ! 0) \<noteq> None \<and>
   fst (resolve_incident demo_env ''SEC-001-1700000000'' once_resolved) \<and>
   resolution_time (incidents once_resolved ! 1) = None \<and>
   resolution_time
     (incidents (snd (resolve_incident demo_env ''SEC-001-1700000000'' once_resolved)) ! 1) \<noteq> None"
proof -
  have "resolve_loop demo_env ''SEC-001-1700000000'' (incidents once_resolved) once_resolved =
     Some ((incidents once_resolved)
           [1 := (incidents once_resolved ! 1)
                \<lparr>resolution_time := Some (now_at demo_env (env_calls once_resolved))\<rparr>],
           for_all_controls
             (restore_body demo_env ((incidents once_resolved ! 1)
                \<lparr>resolution_time := Some (now_at demo_env (env_calls once_resolved))\<rparr>))
             (snd (datetime_now demo_env once_resolved)))"
    by (rule resolve_loop_first_open)
      (simp_all add: incidents_once_resolved force_incident_id_demo force_incident_open)
  then show ?thesis
    by (simp add: resolve_incident_def)
      (simp add: incidents_once_resolved force_incident_id_demo force_incident_open)
qed

text \<open>
  C3. Resolving the id of an open incident is meant to set that incident's resolution
  time. With the two incidents of C1 in the ledger, both open, \<open>resolve_incident\<close> on
  the id of the second returns success and leaves the second without a resolution time
  (it is the first that is resolved).
\<close>

theorem resolve_incident_skips_second_duplicate:
  "incident_id (incidents twice_forced ! 1) = ''SEC-001-1700000000'' \<and>
   resolution_time (incidents twice_forced ! 1) = None \<and>
   fst (resolve_incident demo_env ''SEC-001-1700000000'' twice_forced) \<and>
   resolution_time
     (incidents (snd (resolve_incident demo_env ''SEC-001-1700000000'' twice_forced)) ! 1) = None"
  by (simp add: resolve_twice_forced)
    (simp add: incidents_twice_forced force_incident_id_demo force_incident_open)

end
